theory Spec2Isabelle
  imports Main "HOL-Library.Word"
begin

section \<open>Data model of main.c\<close>

text \<open>
  A C \<open>int\<close> is a 32-bit word: \<open>+\<close> and \<open>-\<close> wrap around as two's-complement
  hardware does, \<open>sint\<close> reads the signed value, and the comparisons of the source
  (\<open><= 0\<close>, \<open>< 0\<close>) are comparisons of \<open>sint\<close>.  Signed overflow is undefined in
  C; a theorem that reads a result as a signed number states the bound under which the
  arithmetic of the source does not overflow.  A \<open>char[]\<close> buffer holding a
  NUL-terminated text is a \<open>string\<close>, \<open>strcmp(a, b) == 0\<close> is \<open>a = b\<close>.
  What is typed at a prompt is an argument of the function that reads it; input that
  \<open>scanf\<close> cannot convert is outside the model.
  Each singly linked list is the list of its nodes from the head pointer on; a pointer
  into a list is the position of its node, and a store through it is a list update.
\<close>

type_synonym cint = "32 word"

record User =
  username :: string
  password :: string
  isAdmin :: cint

record Flight =
  flightNumber :: cint
  origin :: string
  destination :: string
  departureTime :: string
  arrivalTime :: string
  seatsAvailable :: cint

record Hotel =
  hotelID :: cint
  name :: string
  location :: string
  roomsAvailable :: cint

record Reservation =
  reservationID :: cint
  username :: string
  flightNumber :: cint
  hotelID :: cint
  status :: string

text \<open>
  The global variables (\<open>head\<close>, \<open>flightsHead\<close>, \<open>hotelsHead\<close>, \<open>reservationsHead\<close>),
  the function-local \<open>static int lastID\<close> of \<open>generateReservationID\<close>, and the three
  files the claims are about.  A file is \<open>None\<close> when \<open>fopen\<close> for reading fails, and
  otherwise holds the records (or the number) that reading it yields; \<open>users.dat\<close> and
  \<open>reservations.dat\<close> are written and read with \<open>fwrite\<close>/\<open>fread\<close> of whole structs,
  so what is read is what was written.  Opening a file for writing is taken to succeed.
\<close>

record system =
  head :: "User list"
  flightsHead :: "Flight list"
  hotelsHead :: "Hotel list"
  reservationsHead :: "Reservation list"
  lastID :: cint
  users_dat :: "User list option"
  reservations_dat :: "Reservation list option"
  last_id_txt :: "cint option"

text \<open>The lines the functions print, as far as they tell the outcomes apart.\<close>

datatype message =
    Exiting
  | NoSeatsAvailable
  | NoRoomsAvailable
  | AllocationFailed
  | FlightReservationMade cint
  | HotelReservationMade cint
  | CancellationRequestSubmitted
  | OnlyApprovedCanBeCancelled
  | ReservationNotFound
  | ReservationApproved
  | ReservationRejected
  | InvalidInput
  | ExitingWithoutChanges
  | CancellationApproved
  | CancellationDenied
  | UsernameExists
  | UserRegistered
  | UserDeleted
  | UserNotFound
  | FlightExists
  | FlightAdded
  | FlightDeleted
  | FlightUpdated
  | FlightNotFound
  | HotelExists
  | HotelAdded
  | HotelDeleted
  | HotelUpdated
  | HotelNotFound

section \<open>Persistence\<close>

definition saveUsers :: "system \<Rightarrow> system" where
  "saveUsers s = s\<lparr>users_dat := Some (head s)\<rparr>"

text \<open>
  \<open>loadUsers\<close> returns at once when the file cannot be opened, before it touches
  \<open>head\<close>; otherwise it resets \<open>head\<close> and links the records in file order.
\<close>

definition loadUsers :: "system \<Rightarrow> system" where
  "loadUsers s = (case users_dat s of None \<Rightarrow> s | Some us \<Rightarrow> s\<lparr>head := us\<rparr>)"

definition saveReservationsToFile :: "system \<Rightarrow> system" where
  "saveReservationsToFile s = s\<lparr>reservations_dat := Some (reservationsHead s)\<rparr>"

definition loadReservationsFromFile :: "system \<Rightarrow> system" where
  "loadReservationsFromFile s =
     (case reservations_dat s of None \<Rightarrow> s | Some rs \<Rightarrow> s\<lparr>reservationsHead := rs\<rparr>)"

definition loadLastReservationID :: "system \<Rightarrow> cint" where
  "loadLastReservationID s = (case last_id_txt s of None \<Rightarrow> 1000 | Some v \<Rightarrow> v)"

definition saveLastReservationID :: "cint \<Rightarrow> system \<Rightarrow> system" where
  "saveLastReservationID v s = s\<lparr>last_id_txt := Some v\<rparr>"

text \<open>
  \<open>flights.txt\<close> and \<open>hotels.txt\<close> are text files parsed with \<open>fscanf\<close>; the records
  the parse yields are an argument here (\<open>None\<close>: the file cannot be opened).  Neither
  function resets its head pointer, and both append through a local \<open>current\<close> that
  starts as \<open>NULL\<close>: with a non-empty list in memory the first record read is stored
  through the null pointer, which is the result \<open>None\<close>.
\<close>

definition loadFlightsFromFile :: "Flight list option \<Rightarrow> system \<Rightarrow> system option" where
  "loadFlightsFromFile file s =
     (case file of
        None \<Rightarrow> Some s
      | Some [] \<Rightarrow> Some s
      | Some (f # fs) \<Rightarrow>
          if flightsHead s = [] then Some (s\<lparr>flightsHead := f # fs\<rparr>) else None)"

definition loadHotelsFromFile :: "Hotel list option \<Rightarrow> system \<Rightarrow> system option" where
  "loadHotelsFromFile file s =
     (case file of
        None \<Rightarrow> Some s
      | Some [] \<Rightarrow> Some s
      | Some (h # hs) \<Rightarrow>
          if hotelsHead s = [] then Some (s\<lparr>hotelsHead := h # hs\<rparr>) else None)"

text \<open>
  The memory of a process that has just started (every global is \<open>NULL\<close> or 0) next
  to the files it finds, and the loads \<open>main\<close> performs before the first menu.
\<close>

definition process_start ::
  "User list option \<Rightarrow> Reservation list option \<Rightarrow> cint option \<Rightarrow> system" where
  "process_start ud rd lid =
     \<lparr>head = [], flightsHead = [], hotelsHead = [], reservationsHead = [], lastID = 0,
      users_dat = ud, reservations_dat = rd, last_id_txt = lid\<rparr>"

definition main_load :: "Flight list option \<Rightarrow> Hotel list option \<Rightarrow> system \<Rightarrow> system option" where
  "main_load ff hf s =
     (case loadFlightsFromFile ff (loadUsers s) of
        None \<Rightarrow> None
      | Some s1 \<Rightarrow>
          (case loadHotelsFromFile hf s1 of
             None \<Rightarrow> None
           | Some s2 \<Rightarrow> Some (loadReservationsFromFile s2)))"

section \<open>Reservation identifiers\<close>

text \<open>
  \<open>generateReservationID\<close>: the static counter is loaded from \<open>last_id.txt\<close> whenever
  it is 0, then incremented and returned.
\<close>

definition generateReservationID :: "system \<Rightarrow> cint \<times> system" where
  "generateReservationID s =
     (let l = (if lastID s = 0 then loadLastReservationID s else lastID s)
      in (l + 1, s\<lparr>lastID := l + 1\<rparr>))"

section \<open>Availability\<close>

fun countByFlight_loop :: "cint \<Rightarrow> string \<Rightarrow> Reservation list \<Rightarrow> cint \<Rightarrow> cint" where
  "countByFlight_loop fn st [] count = count"
| "countByFlight_loop fn st (r # rs) count =
     countByFlight_loop fn st rs
       (if Reservation.flightNumber r = fn \<and> status r = st then count + 1 else count)"

definition countReservationsByFlight :: "system \<Rightarrow> cint \<Rightarrow> string \<Rightarrow> cint" where
  "countReservationsByFlight s fn st = countByFlight_loop fn st (reservationsHead s) 0"

fun countByHotel_loop :: "cint \<Rightarrow> string \<Rightarrow> Reservation list \<Rightarrow> cint \<Rightarrow> cint" where
  "countByHotel_loop hid st [] count = count"
| "countByHotel_loop hid st (r # rs) count =
     countByHotel_loop hid st rs
       (if Reservation.hotelID r = hid \<and> status r = st then count + 1 else count)"

definition countReservationsByHotel :: "system \<Rightarrow> cint \<Rightarrow> string \<Rightarrow> cint" where
  "countReservationsByHotel s hid st = countByHotel_loop hid st (reservationsHead s) 0"

text \<open>The pointer walk \<open>while (flight && flight->flightNumber != flightNumber)\<close>.\<close>

fun findFlight :: "cint \<Rightarrow> Flight list \<Rightarrow> Flight option" where
  "findFlight fn [] = None"
| "findFlight fn (f # fs) =
     (if Flight.flightNumber f \<noteq> fn then findFlight fn fs else Some f)"

fun findHotel :: "cint \<Rightarrow> Hotel list \<Rightarrow> Hotel option" where
  "findHotel hid [] = None"
| "findHotel hid (h # hs) =
     (if Hotel.hotelID h \<noteq> hid then findHotel hid hs else Some h)"

definition calculateAvailableSeats :: "system \<Rightarrow> cint \<Rightarrow> cint" where
  "calculateAvailableSeats s fn =
     (let approved = countReservationsByFlight s fn ''Approved''
      in case findFlight fn (flightsHead s) of
           Some flight \<Rightarrow> seatsAvailable flight - approved
         | None \<Rightarrow> 0)"

definition calculateAvailableRooms :: "system \<Rightarrow> cint \<Rightarrow> cint" where
  "calculateAvailableRooms s hid =
     (let approved = countReservationsByHotel s hid ''Approved''
      in case findHotel hid (hotelsHead s) of
           Some hotel \<Rightarrow> roomsAvailable hotel - approved
         | None \<Rightarrow> 0)"

fun flightExists_loop :: "cint \<Rightarrow> Flight list \<Rightarrow> bool" where
  "flightExists_loop fn [] = False"
| "flightExists_loop fn (f # fs) =
     (if Flight.flightNumber f = fn then True else flightExists_loop fn fs)"

definition flightExists :: "system \<Rightarrow> cint \<Rightarrow> bool" where
  "flightExists s fn = flightExists_loop fn (flightsHead s)"

fun hotelExists_loop :: "cint \<Rightarrow> Hotel list \<Rightarrow> bool" where
  "hotelExists_loop hid [] = False"
| "hotelExists_loop hid (h # hs) =
     (if Hotel.hotelID h = hid then True else hotelExists_loop hid hs)"

definition hotelExists :: "system \<Rightarrow> cint \<Rightarrow> bool" where
  "hotelExists s hid = hotelExists_loop hid (hotelsHead s)"



definition shownRooms :: "system \<Rightarrow> Hotel \<Rightarrow> cint" where
  "shownRooms s current =
     (let pendingReservations = countReservationsByHotel s (Hotel.hotelID current) ''Pending'';
          approvedReservations = countReservationsByHotel s (Hotel.hotelID current) ''Approved'';
          availableRooms = roomsAvailable current - (pendingReservations + approvedReservations)
      in if sint availableRooms < 0 then 0 else availableRooms)"

definition listHotelsUser :: "system \<Rightarrow> (cint \<times> cint) list" where
  "listHotelsUser s = map (\<lambda>current. (Hotel.hotelID current, shownRooms s current)) (hotelsHead s)"

section \<open>Making reservations\<close>

text \<open>
  The number typed at the prompt and the outcome of \<open>malloc\<close> are arguments.  The new
  node is linked in front of the list and the list is written to \<open>reservations.dat\<close>.
\<close>

definition makeFlightReservation :: "string \<Rightarrow> cint \<Rightarrow> bool \<Rightarrow> system \<Rightarrow> message \<times> system" where
  "makeFlightReservation user fn alloc s =
     (if fn = 0 then (Exiting, s)
      else if sint (calculateAvailableSeats s fn) \<le> 0 then (NoSeatsAvailable, s)
      else if \<not> alloc then (AllocationFailed, s)
      else
        (let (rid, s1) = generateReservationID s;
             newReservation = \<lparr>reservationID = rid, username = user, flightNumber = fn,
                               hotelID = - 1, status = ''Pending''\<rparr>;
             s2 = s1\<lparr>reservationsHead := newReservation # reservationsHead s1\<rparr>
         in (FlightReservationMade rid, saveReservationsToFile s2)))"

definition makeHotelReservation :: "string \<Rightarrow> cint \<Rightarrow> bool \<Rightarrow> system \<Rightarrow> message \<times> system" where
  "makeHotelReservation user hid alloc s =
     (if hid = 0 then (Exiting, s)
      else if sint (calculateAvailableRooms s hid) \<le> 0 then (NoRoomsAvailable, s)
      else if \<not> alloc then (AllocationFailed, s)
      else
        (let (rid, s1) = generateReservationID s;
             newReservation = \<lparr>reservationID = rid, username = user, flightNumber = - 1,
                               hotelID = hid, status = ''Pending''\<rparr>;
             s2 = s1\<lparr>reservationsHead := newReservation # reservationsHead s1\<rparr>
         in (HotelReservationMade rid, saveReservationsToFile s2)))"

section \<open>Status changes\<close>

text \<open>
  \<open>strcpy(current->status, st)\<close> through the pointer \<open>current\<close>, which stands at
  position \<open>i\<close> of the reservation list.
\<close>

definition strcpy_status :: "nat \<Rightarrow> string \<Rightarrow> system \<Rightarrow> system" where
  "strcpy_status i st s =
     s\<lparr>reservationsHead := (reservationsHead s)[i := (reservationsHead s ! i)\<lparr>status := st\<rparr>]\<rparr>"

text \<open>
  The walk of \<open>cancelUserReservation\<close> stops at the first node whose identifier and
  user name both match; the result is its position.
\<close>

fun findUserReservation :: "cint \<Rightarrow> string \<Rightarrow> Reservation list \<Rightarrow> nat option" where
  "findUserReservation resID user [] = None"
| "findUserReservation resID user (r # rs) =
     (if reservationID r = resID \<and> Reservation.username r = user then Some 0
      else map_option Suc (findUserReservation resID user rs))"

definition cancelUserReservation :: "string \<Rightarrow> cint \<Rightarrow> system \<Rightarrow> message \<times> system" where
  "cancelUserReservation user resID s =
     (if resID = 0 then (Exiting, s)
      else
        (case findUserReservation resID user (reservationsHead s) of
           None \<Rightarrow> (ReservationNotFound, s)
         | Some i \<Rightarrow>
             if status (reservationsHead s ! i) = ''Approved''
             then (CancellationRequestSubmitted,
                   saveReservationsToFile (strcpy_status i ''Cancel Requested'' s))
             else (OnlyApprovedCanBeCancelled, s)))"

text \<open>
  The walk \<open>while (current != NULL && current->reservationID != resID)\<close> of the two
  administrator functions.
\<close>

fun findReservation :: "cint \<Rightarrow> Reservation list \<Rightarrow> nat option" where
  "findReservation resID [] = None"
| "findReservation resID (r # rs) =
     (if reservationID r \<noteq> resID then map_option Suc (findReservation resID rs) else Some 0)"

text \<open>
  \<open>decision\<close> is the word typed at the prompt.  \<open>handleReservationApproval\<close> reads it
  with \<open>%s\<close> into \<open>char decision[10]\<close>: a word of up to 9 characters fits, a longer
  one overruns the buffer and is outside this model.
\<close>

definition handleReservationApproval :: "cint \<Rightarrow> string \<Rightarrow> system \<Rightarrow> message \<times> system" where
  "handleReservationApproval resID decision s =
     (if resID = 0 then (Exiting, s)
      else
        (case findReservation resID (reservationsHead s) of
           None \<Rightarrow> (ReservationNotFound, s)
         | Some i \<Rightarrow>
             if decision = ''yes''
             then (ReservationApproved, saveReservationsToFile (strcpy_status i ''Approved'' s))
             else if decision = ''no''
             then (ReservationRejected, saveReservationsToFile (strcpy_status i ''Rejected'' s))
             else (InvalidInput, saveReservationsToFile s)))"

text \<open>\<open>handleCancellationRequests\<close> reads the word with \<open>%9s\<close>: its first 9 characters.\<close>

definition handleCancellationRequests :: "cint \<Rightarrow> string \<Rightarrow> system \<Rightarrow> message \<times> system" where
  "handleCancellationRequests resID word s =
     (if resID = 0 then (Exiting, s)
      else
        (case findReservation resID (reservationsHead s) of
           None \<Rightarrow> (ReservationNotFound, s)
         | Some i \<Rightarrow>
             (let decision = take 9 word
              in if decision = ''exit'' then (ExitingWithoutChanges, s)
                 else if decision = ''yes''
                 then (CancellationApproved, saveReservationsToFile (strcpy_status i ''Cancelled'' s))
                 else if decision = ''no''
                 then (CancellationDenied, saveReservationsToFile (strcpy_status i ''Approved'' s))
                 else (InvalidInput, saveReservationsToFile s))))"

section \<open>Users\<close>

text \<open>
  The loop of \<open>registerUser\<close> walks the list comparing user names and remembers the
  last node; a match ends the function (\<open>None\<close>), the end of the list links the new
  node behind the last one, or makes it the head of an empty list.
\<close>

fun registerUser_loop :: "User \<Rightarrow> User list \<Rightarrow> User list option" where
  "registerUser_loop newUser [] = Some [newUser]"
| "registerUser_loop newUser (current # rest) =
     (if User.username current = User.username newUser then None
      else map_option ((#) current) (registerUser_loop newUser rest))"

definition registerUser :: "User \<Rightarrow> bool \<Rightarrow> system \<Rightarrow> message \<times> system" where
  "registerUser newUser alloc s =
     (if \<not> alloc then (AllocationFailed, s)
      else
        (case registerUser_loop newUser (head s) of
           None \<Rightarrow> (UsernameExists, s)
         | Some us \<Rightarrow> (UserRegistered, saveUsers (s\<lparr>head := us\<rparr>))))"

text \<open>\<open>deleteUser\<close> unlinks the node whose position, counted from 1, is the number typed.\<close>

fun deleteUser_loop :: "cint \<Rightarrow> User list \<Rightarrow> cint \<Rightarrow> User list option" where
  "deleteUser_loop uid [] currentId = None"
| "deleteUser_loop uid (current # rest) currentId =
     (if currentId = uid then Some rest
      else map_option ((#) current) (deleteUser_loop uid rest (currentId + 1)))"

definition deleteUser :: "cint \<Rightarrow> system \<Rightarrow> message \<times> system" where
  "deleteUser uid s =
     (case deleteUser_loop uid (head s) 1 of
        None \<Rightarrow> (UserNotFound, s)
      | Some us \<Rightarrow> (UserDeleted, saveUsers (s\<lparr>head := us\<rparr>)))"

section \<open>Flights and hotels\<close>

definition addFlight :: "Flight \<Rightarrow> bool \<Rightarrow> system \<Rightarrow> message \<times> system" where
  "addFlight newFlight alloc s =
     (if flightExists s (Flight.flightNumber newFlight) then (FlightExists, s)
      else if \<not> alloc then (AllocationFailed, s)
      else (FlightAdded, s\<lparr>flightsHead := newFlight # flightsHead s\<rparr>))"

fun deleteFlight_loop :: "cint \<Rightarrow> Flight list \<Rightarrow> Flight list option" where
  "deleteFlight_loop fn [] = None"
| "deleteFlight_loop fn (current # rest) =
     (if Flight.flightNumber current = fn then Some rest
      else map_option ((#) current) (deleteFlight_loop fn rest))"

definition deleteFlight :: "cint \<Rightarrow> system \<Rightarrow> message \<times> system" where
  "deleteFlight fn s =
     (case deleteFlight_loop fn (flightsHead s) of
        None \<Rightarrow> (FlightNotFound, s)
      | Some fs \<Rightarrow> (FlightDeleted, s\<lparr>flightsHead := fs\<rparr>))"

fun editFlight_loop ::
  "cint \<Rightarrow> string \<Rightarrow> string \<Rightarrow> string \<Rightarrow> string \<Rightarrow> cint \<Rightarrow> Flight list \<Rightarrow> Flight list option" where
  "editFlight_loop fn orig dest dep arr seats [] = None"
| "editFlight_loop fn orig dest dep arr seats (current # rest) =
     (if Flight.flightNumber current = fn
      then Some (current\<lparr>origin := orig, destination := dest, departureTime := dep,
                         arrivalTime := arr, seatsAvailable := seats\<rparr> # rest)
      else map_option ((#) current) (editFlight_loop fn orig dest dep arr seats rest))"

definition editFlight ::
  "cint \<Rightarrow> string \<Rightarrow> string \<Rightarrow> string \<Rightarrow> string \<Rightarrow> cint \<Rightarrow> system \<Rightarrow> message \<times> system" where
  "editFlight fn orig dest dep arr seats s =
     (case editFlight_loop fn orig dest dep arr seats (flightsHead s) of
        None \<Rightarrow> (FlightNotFound, s)
      | Some fs \<Rightarrow> (FlightUpdated, s\<lparr>flightsHead := fs\<rparr>))"

definition addHotel :: "Hotel \<Rightarrow> bool \<Rightarrow> system \<Rightarrow> message \<times> system" where
  "addHotel newHotel alloc s =
     (if hotelExists s (Hotel.hotelID newHotel) then (HotelExists, s)
      else if \<not> alloc then (AllocationFailed, s)
      else (HotelAdded, s\<lparr>hotelsHead := newHotel # hotelsHead s\<rparr>))"

fun deleteHotel_loop :: "cint \<Rightarrow> Hotel list \<Rightarrow> Hotel list option" where
  "deleteHotel_loop hid [] = None"
| "deleteHotel_loop hid (current # rest) =
     (if Hotel.hotelID current = hid then Some rest
      else map_option ((#) current) (deleteHotel_loop hid rest))"

definition deleteHotel :: "cint \<Rightarrow> system \<Rightarrow> message \<times> system" where
  "deleteHotel hid s =
     (case deleteHotel_loop hid (hotelsHead s) of
        None \<Rightarrow> (HotelNotFound, s)
      | Some hs \<Rightarrow> (HotelDeleted, s\<lparr>hotelsHead := hs\<rparr>))"

fun editHotel_loop :: "cint \<Rightarrow> string \<Rightarrow> string \<Rightarrow> cint \<Rightarrow> Hotel list \<Rightarrow> Hotel list option" where
  "editHotel_loop hid nm loc rooms [] = None"
| "editHotel_loop hid nm loc rooms (current # rest) =
     (if Hotel.hotelID current = hid
      then Some (current\<lparr>name := nm, location := loc, roomsAvailable := rooms\<rparr> # rest)
      else map_option ((#) current) (editHotel_loop hid nm loc rooms rest))"

definition editHotel :: "cint \<Rightarrow> string \<Rightarrow> string \<Rightarrow> cint \<Rightarrow> system \<Rightarrow> message \<times> system" where
  "editHotel hid nm loc rooms s =
     (case editHotel_loop hid nm loc rooms (hotelsHead s) of
        None \<Rightarrow> (HotelNotFound, s)
      | Some hs \<Rightarrow> (HotelUpdated, s\<lparr>hotelsHead := hs\<rparr>))"

section \<open>The menus as commands\<close>

text \<open>
  One constructor for each menu entry that changes the memory or a modelled file.
  \<open>NextReservationID\<close> is the pair of calls that follows a booking in \<open>userMenu\<close> and
  precedes \<open>exit\<close> in \<open>mainMenu\<close>: \<open>saveLastReservationID(generateReservationID())\<close>.
  \<open>SaveOnExit\<close> is entry 4 of \<open>mainMenu\<close>, \<open>SaveOnLogout\<close> the log-out entries.
\<close>

datatype command =
    RegisterUser User bool
  | DeleteUser cint
  | AddFlight Flight bool
  | DeleteFlight cint
  | EditFlight cint string string string string cint
  | AddHotel Hotel bool
  | DeleteHotel cint
  | EditHotel cint string string cint
  | MakeFlightReservation string cint bool
  | MakeHotelReservation string cint bool
  | CancelUserReservation string cint
  | HandleReservationApproval cint string
  | HandleCancellationRequests cint string
  | NextReservationID
  | SaveOnExit
  | SaveOnLogout

definition nextReservationID :: "system \<Rightarrow> system" where
  "nextReservationID s = (let (newResID, s1) = generateReservationID s in saveLastReservationID newResID s1)"

fun exec :: "command \<Rightarrow> system \<Rightarrow> system" where
  "exec (RegisterUser u alloc) s = snd (registerUser u alloc s)"
| "exec (DeleteUser uid) s = snd (deleteUser uid s)"
| "exec (AddFlight f alloc) s = snd (addFlight f alloc s)"
| "exec (DeleteFlight fn) s = snd (deleteFlight fn s)"
| "exec (EditFlight fn orig dest dep arr seats) s = snd (editFlight fn orig dest dep arr seats s)"
| "exec (AddHotel h alloc) s = snd (addHotel h alloc s)"
| "exec (DeleteHotel hid) s = snd (deleteHotel hid s)"
| "exec (EditHotel hid nm loc rooms) s = snd (editHotel hid nm loc rooms s)"
| "exec (MakeFlightReservation user fn alloc) s = snd (makeFlightReservation user fn alloc s)"
| "exec (MakeHotelReservation user hid alloc) s = snd (makeHotelReservation user hid alloc s)"
| "exec (CancelUserReservation user resID) s = snd (cancelUserReservation user resID s)"
| "exec (HandleReservationApproval resID decision) s = snd (handleReservationApproval resID decision s)"
| "exec (HandleCancellationRequests resID word) s = snd (handleCancellationRequests resID word s)"
| "exec NextReservationID s = nextReservationID s"
| "exec SaveOnExit s = nextReservationID (saveReservationsToFile (saveUsers s))"
| "exec SaveOnLogout s = saveReservationsToFile s"

fun run :: "command list \<Rightarrow> system \<Rightarrow> system" where
  "run [] s = s"
| "run (c # cs) s = run cs (exec c s)"

text \<open>
  The states the program can be in: a first start that finds no \<open>reservations.dat\<close>,
  any command, and a new process started on the files the previous one left.
\<close>

inductive reachable :: "system \<Rightarrow> bool" where
  first_start: "main_load ff hf (process_start ud None lid) = Some s \<Longrightarrow> reachable s"
| command: "reachable s \<Longrightarrow> reachable (exec c s)"
| restart: "reachable s \<Longrightarrow>
     main_load ff hf (process_start (users_dat s) (reservations_dat s) (last_id_txt s)) = Some s'
     \<Longrightarrow> reachable s'"

section \<open>Notions the properties are stated with\<close>

text \<open>
  The number the next call of \<open>generateReservationID\<close> increments: the static
  counter, or what \<open>loadLastReservationID\<close> returns while the counter is 0.
\<close>

definition counter :: "system \<Rightarrow> cint" where
  "counter s = (if lastID s = 0 then loadLastReservationID s else lastID s)"

text \<open>\<open>n\<close> calls of \<open>generateReservationID\<close> in a row, with the identifiers in the order returned.\<close>

fun issue :: "nat \<Rightarrow> system \<Rightarrow> cint list \<times> system" where
  "issue 0 s = ([], s)"
| "issue (Suc n) s =
     (let (x, s1) = generateReservationID s;
          (xs, s2) = issue n s1
      in (x # xs, s2))"

text \<open>No overbooking: no flight and no hotel has more approved reservations than places.\<close>

definition no_overbooking :: "system \<Rightarrow> bool" where
  "no_overbooking s =
     (list_all (\<lambda>f. sint (countReservationsByFlight s (Flight.flightNumber f) ''Approved'')
                      \<le> sint (seatsAvailable f)) (flightsHead s)
      \<and> list_all (\<lambda>h. sint (countReservationsByHotel s (Hotel.hotelID h) ''Approved'')
                      \<le> sint (roomsAvailable h)) (hotelsHead s))"

text \<open>
  What every reservation built by the two booking functions satisfies: one of the two
  key fields holds the sentinel \<open>-1\<close> and the other a number that is not 0 (0 leaves
  the booking function).  It does not say that the other field differs from \<open>-1\<close>:
  a reservation with \<open>-1\<close> in both fields satisfies it.
\<close>

definition has_sentinel :: "Reservation \<Rightarrow> bool" where
  "has_sentinel r =
     (Reservation.hotelID r = - 1 \<and> Reservation.flightNumber r \<noteq> 0
      \<or> Reservation.flightNumber r = - 1 \<and> Reservation.hotelID r \<noteq> 0)"

text \<open>Exactly one of the two key fields is set: the other one holds the sentinel.\<close>

definition exactly_one_key :: "Reservation \<Rightarrow> bool" where
  "exactly_one_key r = ((Reservation.flightNumber r = - 1) \<noteq> (Reservation.hotelID r = - 1))"

text \<open>The same of every reservation in memory and in \<open>reservations.dat\<close>.\<close>

definition all_exactly_one :: "system \<Rightarrow> bool" where
  "all_exactly_one s =
     (list_all exactly_one_key (reservationsHead s)
      \<and> (case reservations_dat s of None \<Rightarrow> True | Some rs \<Rightarrow> list_all exactly_one_key rs))"

text \<open>A booking of the flight or hotel that is itself numbered \<open>-1\<close>.\<close>

fun books_sentinel :: "command \<Rightarrow> bool" where
  "books_sentinel (MakeFlightReservation user fn alloc) = (fn = - 1)"
| "books_sentinel (MakeHotelReservation user hid alloc) = (hid = - 1)"
| "books_sentinel c = False"

definition res_keys :: "Reservation \<Rightarrow> cint \<times> cint" where
  "res_keys r = (Reservation.flightNumber r, Reservation.hotelID r)"

section \<open>Example data\<close>

definition flight7 :: Flight where
  "flight7 = \<lparr>Flight.flightNumber = 7, origin = ''Porto'', destination = ''Lisboa'',
              departureTime = ''09:00'', arrivalTime = ''10:00'', seatsAvailable = 1\<rparr>"

definition hotel3 :: Hotel where
  "hotel3 = \<lparr>Hotel.hotelID = 3, name = ''Ribeira'', location = ''Porto'', roomsAvailable = 2\<rparr>"

definition booking :: "cint \<Rightarrow> string \<Rightarrow> string \<Rightarrow> Reservation" where
  "booking rid user st =
     \<lparr>reservationID = rid, username = user, flightNumber = 7, hotelID = - 1, status = st\<rparr>"

text \<open>One flight with a single seat, one hotel, an approved and a pending booking of the flight.\<close>

definition desk :: system where
  "desk = \<lparr>head = [], flightsHead = [flight7], hotelsHead = [hotel3],
           reservationsHead = [booking 1002 ''bea'' ''Pending'', booking 1001 ''ana'' ''Approved''],
           lastID = 1002, users_dat = None, reservations_dat = None, last_id_txt = Some 1003\<rparr>"

text \<open>The same flight and hotel before anybody has booked.\<close>

definition first_day :: system where
  "first_day = \<lparr>head = [], flightsHead = [flight7], hotelsHead = [hotel3],
              reservationsHead = [], lastID = 0, users_dat = None, reservations_dat = None,
              last_id_txt = None\<rparr>"



definition ana :: User where
  "ana = \<lparr>User.username = ''ana'', password = ''pw1'', isAdmin = 0\<rparr>"

definition bea :: User where
  "bea = \<lparr>User.username = ''bea'', password = ''pw2'', isAdmin = 1\<rparr>"

text \<open>A flight booking and a hotel booking made on the first day.\<close>

definition two_bookings :: system where
  "two_bookings =
     exec (MakeHotelReservation ''bea'' 3 True) (exec (MakeFlightReservation ''ana'' 7 True) first_day)"

text \<open>
  Two users book the flight with one seat through the user menu, which draws one more
  identifier after each booking, and the administrator approves both reservations.
\<close>

definition two_approvals :: "command list" where
  "two_approvals =
     [MakeFlightReservation ''ana'' 7 True, NextReservationID,
      MakeFlightReservation ''bea'' 7 True, NextReservationID,
      HandleReservationApproval 1001 ''yes'', HandleReservationApproval 1003 ''yes'']"

text \<open>
  The administrator adds a flight numbered \<open>-1\<close>, which \<open>addFlight\<close> accepts, and a
  user books it.
\<close>

definition flight_minus_one :: Flight where
  "flight_minus_one = \<lparr>Flight.flightNumber = - 1, origin = ''Faro'', destination = ''Porto'',
                       departureTime = ''12:00'', arrivalTime = ''13:00'', seatsAvailable = 2\<rparr>"

definition sentinel_booking :: system where
  "sentinel_booking =
     exec (MakeFlightReservation ''ana'' (- 1) True) (exec (AddFlight flight_minus_one True) first_day)"


lemmas desk_defs = desk_def first_day_def flight7_def hotel3_def booking_def

section \<open>Loading when a file is missing\<close>

text \<open>
  C7.  When a persistence file is missing at load time the program starts with the
  collection empty.  \<open>loadUsers\<close> returns the memory as it found it when \<open>users.dat\<close>
  cannot be opened, and so does \<open>loadReservationsFromFile\<close> when
  \<open>reservations.dat\<close> cannot be opened; in a process that has just started, which is
  where \<open>main\<close> calls them, the user list and the reservation list are therefore
  empty afterwards.  \<open>loadLastReservationID\<close> returns 1000 when \<open>last_id.txt\<close> cannot
  be opened.  A first start without any file ends with every list empty.
\<close>

theorem missing_file_starts_empty:
  "loadUsers (s\<lparr>users_dat := None\<rparr>) = s\<lparr>users_dat := None\<rparr>
   \<and> head (loadUsers (process_start None rd lid)) = []
   \<and> loadReservationsFromFile (s\<lparr>reservations_dat := None\<rparr>) = s\<lparr>reservations_dat := None\<rparr>
   \<and> reservationsHead (loadReservationsFromFile (process_start ud None lid)) = []
   \<and> loadLastReservationID (s\<lparr>last_id_txt := None\<rparr>) = 1000
   \<and> main_load None None (process_start None None None) = Some (process_start None None None)
   \<and> head (process_start None None None) = []
   \<and> reservationsHead (process_start None None None) = []"
  by (simp add: loadUsers_def loadReservationsFromFile_def loadLastReservationID_def
      loadFlightsFromFile_def loadHotelsFromFile_def main_load_def process_start_def)

section \<open>Counting and searching\<close>

lemma countByFlight_loop_eq:
  "countByFlight_loop fn st rs c =
     c + of_nat (length (filter (\<lambda>r. Reservation.flightNumber r = fn \<and> status r = st) rs))"
  by (induction rs arbitrary: c) simp_all

lemma countByHotel_loop_eq:
  "countByHotel_loop hid st rs c =
     c + of_nat (length (filter (\<lambda>r. Reservation.hotelID r = hid \<and> status r = st) rs))"
  by (induction rs arbitrary: c) simp_all

lemma findFlight_None_iff:
  "findFlight fn fs = None \<longleftrightarrow> fn \<notin> Flight.flightNumber ` set fs"
  by (induction fs) auto

lemma findHotel_None_iff:
  "findHotel hid hs = None \<longleftrightarrow> hid \<notin> Hotel.hotelID ` set hs"
  by (induction hs) auto

lemma flightExists_loop_iff:
  "flightExists_loop fn fs \<longleftrightarrow> fn \<in> Flight.flightNumber ` set fs"
  by (induction fs) auto

lemma hotelExists_loop_iff:
  "hotelExists_loop hid hs \<longleftrightarrow> hid \<in> Hotel.hotelID ` set hs"
  by (induction hs) auto

lemma findReservation_Some_iff:
  "findReservation resID rs = Some i \<longleftrightarrow>
     i < length rs \<and> reservationID (rs ! i) = resID \<and> (\<forall>j<i. reservationID (rs ! j) \<noteq> resID)"
proof (induction rs arbitrary: i)
  case Nil
  then show ?case by simp
next
  case (Cons r rs)
  show ?case
  proof (cases i)
    case 0
    then show ?thesis by auto
  next
    case (Suc k)
    then show ?thesis
      using Cons.IH [of k] by (auto simp: less_Suc_eq_0_disj)
  qed
qed

lemma findUserReservation_Some_iff:
  "findUserReservation resID user rs = Some i \<longleftrightarrow>
     i < length rs \<and> reservationID (rs ! i) = resID \<and> Reservation.username (rs ! i) = user
     \<and> (\<forall>j<i. \<not> (reservationID (rs ! j) = resID \<and> Reservation.username (rs ! j) = user))"
proof (induction rs arbitrary: i)
  case Nil
  then show ?case by simp
next
  case (Cons r rs)
  show ?case
  proof (cases i)
    case 0
    then show ?thesis by auto
  next
    case (Suc k)
    then show ?thesis
      using Cons.IH [of k] by (auto simp: less_Suc_eq_0_disj)
  qed
qed

lemma strcpy_status_simps:
  "reservationsHead (strcpy_status i st s) = (reservationsHead s)[i := (reservationsHead s ! i)\<lparr>status := st\<rparr>]"
  "flightsHead (strcpy_status i st s) = flightsHead s"
  "hotelsHead (strcpy_status i st s) = hotelsHead s"
  "head (strcpy_status i st s) = head s"
  "lastID (strcpy_status i st s) = lastID s"
  "last_id_txt (strcpy_status i st s) = last_id_txt s"
  by (simp_all add: strcpy_status_def)

lemma saveReservationsToFile_simps:
  "reservationsHead (saveReservationsToFile s) = reservationsHead s"
  "flightsHead (saveReservationsToFile s) = flightsHead s"
  "hotelsHead (saveReservationsToFile s) = hotelsHead s"
  "head (saveReservationsToFile s) = head s"
  "lastID (saveReservationsToFile s) = lastID s"
  "last_id_txt (saveReservationsToFile s) = last_id_txt s"
  "reservations_dat (saveReservationsToFile s) = Some (reservationsHead s)"
  by (simp_all add: saveReservationsToFile_def)

lemma length_filter_update:
  "i < length xs \<Longrightarrow> \<not> P (xs ! i) \<Longrightarrow> P x \<Longrightarrow>
     length (filter P (xs[i := x])) = Suc (length (filter P xs))"
proof (induction xs arbitrary: i)
  case Nil
  then show ?case by simp
next
  case (Cons y ys)
  then show ?case by (cases i) auto
qed

lemma findFlight_Some_iff_mem:
  "(\<exists>f. findFlight fn fs = Some f) \<longleftrightarrow> fn \<in> Flight.flightNumber ` set fs"
  using findFlight_None_iff [of fn fs] by (cases "findFlight fn fs") auto


section \<open>Keys that are not in the lists\<close>

text \<open>
  C8.  For a flight number that no flight of the list carries, \<open>flightExists\<close> is
  false, \<open>calculateAvailableSeats\<close> returns 0, and \<open>makeFlightReservation\<close> returns
  without creating anything: the whole memory, the reservation list included, and the
  files are as before (the number 0 leaves the function even earlier).  The same holds
  for \<open>calculateAvailableRooms\<close> and \<open>makeHotelReservation\<close> and a hotel identifier
  that no hotel carries.
\<close>

theorem absent_key_not_bookable:
  "(fn \<notin> Flight.flightNumber ` set (flightsHead s) \<longrightarrow>
      \<not> flightExists s fn
      \<and> calculateAvailableSeats s fn = 0
      \<and> makeFlightReservation user fn alloc s
          = (if fn = 0 then Exiting else NoSeatsAvailable, s))
   \<and> (hid \<notin> Hotel.hotelID ` set (hotelsHead s) \<longrightarrow>
      \<not> hotelExists s hid
      \<and> calculateAvailableRooms s hid = 0
      \<and> makeHotelReservation user hid alloc s
          = (if hid = 0 then Exiting else NoRoomsAvailable, s))"
  by (simp add: calculateAvailableSeats_def calculateAvailableRooms_def
      makeFlightReservation_def makeHotelReservation_def flightExists_def hotelExists_def
      flightExists_loop_iff hotelExists_loop_iff
      findFlight_None_iff [THEN iffD2] findHotel_None_iff [THEN iffD2])

theorem absent_key_not_bookable_witness:
  "9 \<notin> Flight.flightNumber ` set (flightsHead desk)
   \<and> calculateAvailableSeats desk 9 = 0
   \<and> makeFlightReservation ''ana'' 9 True desk = (NoSeatsAvailable, desk)
   \<and> 4 \<notin> Hotel.hotelID ` set (hotelsHead desk)
   \<and> calculateAvailableRooms desk 4 = 0
   \<and> makeHotelReservation ''ana'' 4 True desk = (NoRoomsAvailable, desk)"
  using absent_key_not_bookable [where fn = 9 and s = desk and hid = 4 and user = "''ana''" and alloc = True]
  by (simp add: desk_defs)


section \<open>The administrator's decision\<close>

text \<open>
  C9.  \<open>handleReservationApproval\<close> has no precondition on the status of the
  reservation it finds.  Let the reservation at position \<open>i\<close> be the first one with
  the identifier typed (the one the walk stops at; 0 cannot be typed, it leaves the
  function).  Whatever its status, the decision \<open>yes\<close> stores \<open>Approved\<close> in it and
  \<open>no\<close> stores \<open>Rejected\<close>, and for every decision the message and the resulting
  reservation list are the same whatever the flight and hotel lists hold: no
  availability enters the function.
\<close>

theorem approval_has_no_precondition:
  assumes "resID \<noteq> 0"
    and "i < length (reservationsHead s)"
    and "reservationID (reservationsHead s ! i) = resID"
    and "\<forall>j<i. reservationID (reservationsHead s ! j) \<noteq> resID"
  shows "handleReservationApproval resID ''yes'' s
           = (ReservationApproved, saveReservationsToFile (strcpy_status i ''Approved'' s))
       \<and> reservationsHead (snd (handleReservationApproval resID ''yes'' s))
           = (reservationsHead s)[i := (reservationsHead s ! i)\<lparr>status := ''Approved''\<rparr>]
       \<and> status (reservationsHead (snd (handleReservationApproval resID ''yes'' s)) ! i) = ''Approved''
       \<and> handleReservationApproval resID ''no'' s
           = (ReservationRejected, saveReservationsToFile (strcpy_status i ''Rejected'' s))
       \<and> reservationsHead (snd (handleReservationApproval resID ''no'' s))
           = (reservationsHead s)[i := (reservationsHead s ! i)\<lparr>status := ''Rejected''\<rparr>]
       \<and> status (reservationsHead (snd (handleReservationApproval resID ''no'' s)) ! i) = ''Rejected''
       \<and> fst (handleReservationApproval resID decision (s\<lparr>flightsHead := fl, hotelsHead := ho\<rparr>))
           = fst (handleReservationApproval resID decision s)
       \<and> reservationsHead (snd (handleReservationApproval resID decision (s\<lparr>flightsHead := fl, hotelsHead := ho\<rparr>)))
           = reservationsHead (snd (handleReservationApproval resID decision s))"
proof -
  have f: "findReservation resID (reservationsHead s) = Some i"
    using assms by (simp add: findReservation_Some_iff)
  show ?thesis
    using assms(1,2) f
    by (simp add: handleReservationApproval_def strcpy_status_simps saveReservationsToFile_simps)
qed

theorem approval_has_no_precondition_witness:
  "(1001 :: cint) \<noteq> 0
   \<and> 1 < length (reservationsHead desk)
   \<and> reservationID (reservationsHead desk ! 1) = 1001
   \<and> reservationID (reservationsHead desk ! 0) \<noteq> 1001
   \<and> status (reservationsHead desk ! 1) = ''Approved''
   \<and> status (reservationsHead (snd (handleReservationApproval 1001 ''yes'' desk)) ! 1) = ''Approved''
   \<and> status (reservationsHead (snd (handleReservationApproval 1001 ''no'' desk)) ! 1) = ''Rejected''
   \<and> (1002 :: cint) \<noteq> 0
   \<and> reservationID (reservationsHead desk ! 0) = 1002
   \<and> status (reservationsHead desk ! 0) = ''Pending''
   \<and> sint (calculateAvailableSeats desk 7) = 0
   \<and> status (reservationsHead (snd (handleReservationApproval 1002 ''yes'' desk)) ! 0) = ''Approved''
   \<and> status (reservationsHead (snd (handleReservationApproval 1002 ''no'' desk)) ! 0) = ''Rejected''"
  using approval_has_no_precondition [where resID = 1001 and i = 1 and s = desk]
    approval_has_no_precondition [where resID = 1002 and i = 0 and s = desk]
  by (simp add: desk_defs calculateAvailableSeats_def countReservationsByFlight_def
      strcpy_status_def saveReservationsToFile_def)

section \<open>Requesting a cancellation\<close>

text \<open>
  C3.  Let the reservation at position \<open>i\<close> belong to the requesting user and be the
  first one of that user with the identifier typed (0 cannot be typed).  If its status
  is \<open>Approved\<close>, \<open>cancelUserReservation\<close> stores \<open>Cancel Requested\<close> in it; with any
  other status the request is refused and memory and files are unchanged.  So the
  status of the reservation changes if and only if it was \<open>Approved\<close>.
\<close>

theorem cancel_only_from_approved:
  assumes "resID \<noteq> 0"
    and "i < length (reservationsHead s)"
    and "reservationID (reservationsHead s ! i) = resID"
    and "Reservation.username (reservationsHead s ! i) = user"
    and "\<forall>j<i. \<not> (reservationID (reservationsHead s ! j) = resID
                  \<and> Reservation.username (reservationsHead s ! j) = user)"
  shows "(status (reservationsHead s ! i) = ''Approved'' \<longrightarrow>
            cancelUserReservation user resID s
              = (CancellationRequestSubmitted,
                 saveReservationsToFile (strcpy_status i ''Cancel Requested'' s))
            \<and> reservationsHead (snd (cancelUserReservation user resID s))
              = (reservationsHead s)[i := (reservationsHead s ! i)\<lparr>status := ''Cancel Requested''\<rparr>])
       \<and> (status (reservationsHead s ! i) \<noteq> ''Approved'' \<longrightarrow>
            cancelUserReservation user resID s = (OnlyApprovedCanBeCancelled, s))
       \<and> (status (reservationsHead (snd (cancelUserReservation user resID s)) ! i)
              \<noteq> status (reservationsHead s ! i)
            \<longleftrightarrow> status (reservationsHead s ! i) = ''Approved'')"
proof -
  have f: "findUserReservation resID user (reservationsHead s) = Some i"
    using assms by (simp add: findUserReservation_Some_iff)
  show ?thesis
    using assms(1,2) f
    by (auto simp add: cancelUserReservation_def strcpy_status_simps saveReservationsToFile_simps)
qed

theorem cancel_only_from_approved_witness:
  "(1001 :: cint) \<noteq> 0
   \<and> 1 < length (reservationsHead desk)
   \<and> reservationID (reservationsHead desk ! 1) = 1001
   \<and> Reservation.username (reservationsHead desk ! 1) = ''ana''
   \<and> reservationID (reservationsHead desk ! 0) \<noteq> 1001
   \<and> status (reservationsHead desk ! 1) = ''Approved''
   \<and> fst (cancelUserReservation ''ana'' 1001 desk) = CancellationRequestSubmitted
   \<and> reservationsHead (snd (cancelUserReservation ''ana'' 1001 desk))
       = [booking 1002 ''bea'' ''Pending'', booking 1001 ''ana'' ''Cancel Requested'']
   \<and> (1002 :: cint) \<noteq> 0
   \<and> reservationID (reservationsHead desk ! 0) = 1002
   \<and> Reservation.username (reservationsHead desk ! 0) = ''bea''
   \<and> status (reservationsHead desk ! 0) = ''Pending''
   \<and> cancelUserReservation ''bea'' 1002 desk = (OnlyApprovedCanBeCancelled, desk)"
  using cancel_only_from_approved [where resID = 1001 and i = 1 and s = desk and user = "''ana''"]
    cancel_only_from_approved [where resID = 1002 and i = 0 and s = desk and user = "''bea''"]
  by (simp add: desk_defs strcpy_status_def saveReservationsToFile_def)

section \<open>Approval and available seats\<close>

text \<open>
  C4.  For a flight of the flight list: when \<open>handleReservationApproval\<close> with the
  decision \<open>yes\<close> finds a reservation of that flight whose status is not yet
  \<open>Approved\<close>, the reservation becomes \<open>Approved\<close>, the flight list and every other
  reservation stay as they were, and \<open>calculateAvailableSeats\<close> of the flight is
  exactly 1 less than before (as 32-bit values; as signed numbers too, unless the old
  value was the least \<open>int\<close>).
\<close>

theorem approval_takes_one_seat:
  assumes "fn \<in> Flight.flightNumber ` set (flightsHead s)"
    and "resID \<noteq> 0"
    and "i < length (reservationsHead s)"
    and "reservationID (reservationsHead s ! i) = resID"
    and "\<forall>j<i. reservationID (reservationsHead s ! j) \<noteq> resID"
    and "Reservation.flightNumber (reservationsHead s ! i) = fn"
    and "status (reservationsHead s ! i) \<noteq> ''Approved''"
  shows "calculateAvailableSeats (snd (handleReservationApproval resID ''yes'' s)) fn
           = calculateAvailableSeats s fn - 1
       \<and> (- (2 ^ 31) < sint (calculateAvailableSeats s fn) \<longrightarrow>
            sint (calculateAvailableSeats (snd (handleReservationApproval resID ''yes'' s)) fn)
              = sint (calculateAvailableSeats s fn) - 1)
       \<and> status (reservationsHead (snd (handleReservationApproval resID ''yes'' s)) ! i) = ''Approved''
       \<and> flightsHead (snd (handleReservationApproval resID ''yes'' s)) = flightsHead s
       \<and> length (reservationsHead (snd (handleReservationApproval resID ''yes'' s)))
           = length (reservationsHead s)
       \<and> (\<forall>j. j \<noteq> i \<longrightarrow>
            reservationsHead (snd (handleReservationApproval resID ''yes'' s)) ! j
              = reservationsHead s ! j)"
proof -
  let ?rs = "reservationsHead s"
  let ?s' = "snd (handleReservationApproval resID ''yes'' s)"
  let ?P = "\<lambda>r. Reservation.flightNumber r = fn \<and> status r = ''Approved''"
  have f: "findReservation resID ?rs = Some i"
    using assms by (simp add: findReservation_Some_iff)
  have rs': "reservationsHead ?s' = ?rs[i := (?rs ! i)\<lparr>status := ''Approved''\<rparr>]"
    and fl: "flightsHead ?s' = flightsHead s"
    using assms(2) f
    by (simp_all add: handleReservationApproval_def strcpy_status_simps saveReservationsToFile_simps)
  have cnt: "length (filter ?P (reservationsHead ?s')) = Suc (length (filter ?P ?rs))"
    unfolding rs' using assms(3,6,7) by (intro length_filter_update) simp_all
  obtain f where ff: "findFlight fn (flightsHead s) = Some f"
    using assms(1) findFlight_Some_iff_mem by blast
  have calc: "calculateAvailableSeats ?s' fn = calculateAvailableSeats s fn - 1"
    by (simp add: calculateAvailableSeats_def countReservationsByFlight_def
        countByFlight_loop_eq cnt fl ff)
  have "sint (calculateAvailableSeats ?s' fn) = sint (calculateAvailableSeats s fn) - 1"
    if "- (2 ^ 31) < sint (calculateAvailableSeats s fn)"
  proof -
    have "sint (calculateAvailableSeats s fn) < 2 ^ 31"
      using sint_lt [of "calculateAvailableSeats s fn"] by simp
    then show ?thesis
      unfolding calc using that
      by (simp add: sint_word_diff signed_take_bit_int_eq_self)
  qed
  then show ?thesis
    using calc fl assms(3) by (simp add: rs')
qed

theorem approval_takes_one_seat_witness:
  "7 \<in> Flight.flightNumber ` set (flightsHead desk)
   \<and> (1002 :: cint) \<noteq> 0
   \<and> 0 < length (reservationsHead desk)
   \<and> reservationID (reservationsHead desk ! 0) = 1002
   \<and> status (reservationsHead desk ! 0) = ''Pending''
   \<and> Reservation.flightNumber (reservationsHead desk ! 0) = 7
   \<and> calculateAvailableSeats desk 7 = 0
   \<and> calculateAvailableSeats (snd (handleReservationApproval 1002 ''yes'' desk)) 7 = - 1
   \<and> sint (calculateAvailableSeats (snd (handleReservationApproval 1002 ''yes'' desk)) 7) = - 1"
  using approval_takes_one_seat [where fn = 7 and s = desk and resID = 1002 and i = 0]
  by (simp add: desk_defs calculateAvailableSeats_def countReservationsByFlight_def
      handleReservationApproval_def strcpy_status_def saveReservationsToFile_def)

section \<open>Signed values of words\<close>

lemma sint_of_nat_small:
  "n < 2 ^ 31 \<Longrightarrow> sint (of_nat n :: cint) = int n"
  by (simp add: signed_of_nat signed_take_bit_int_eq_self)


lemma sint_add_small:
  "- (2 ^ 31) \<le> sint (a::cint) + sint b \<Longrightarrow> sint a + sint b < 2 ^ 31 \<Longrightarrow> sint (a + b) = sint a + sint b"
  by (simp add: sint_word_add signed_take_bit_int_eq_self)




section \<open>The seats shown and the seats that can be booked\<close>




section \<open>User names\<close>

lemma registerUser_loop_eq:
  "registerUser_loop u us =
     (if User.username u \<in> User.username ` set us then None else Some (us @ [u]))"
  by (induction us) auto

text \<open>
  C6.  User names are a unique key.  \<open>registerUser\<close> with a name that is in the user
  list reports the duplicate and leaves memory and files unchanged; with a name that is
  not in the list it appends exactly the new user at the end (and writes the list to
  \<open>users.dat\<close>); it changes nothing when \<open>malloc\<close> fails.  Hence a list of distinct
  user names remains one after every call.
\<close>

theorem usernames_stay_unique:
  "(User.username u \<in> User.username ` set (head s) \<and> alloc \<longrightarrow>
      registerUser u alloc s = (UsernameExists, s))
   \<and> (User.username u \<notin> User.username ` set (head s) \<and> alloc \<longrightarrow>
      registerUser u alloc s = (UserRegistered, saveUsers (s\<lparr>head := head s @ [u]\<rparr>))
      \<and> head (snd (registerUser u alloc s)) = head s @ [u])
   \<and> (\<not> alloc \<longrightarrow> registerUser u alloc s = (AllocationFailed, s))
   \<and> (distinct (map User.username (head s)) \<longrightarrow>
      distinct (map User.username (head (snd (registerUser u alloc s)))))"
  by (auto simp add: registerUser_def registerUser_loop_eq saveUsers_def)

theorem usernames_stay_unique_witness:
  "distinct (map User.username (head (first_day\<lparr>head := [ana]\<rparr>)))
   \<and> User.username (ana\<lparr>password := ''other''\<rparr>) \<in> User.username ` set (head (first_day\<lparr>head := [ana]\<rparr>))
   \<and> registerUser (ana\<lparr>password := ''other''\<rparr>) True (first_day\<lparr>head := [ana]\<rparr>)
       = (UsernameExists, first_day\<lparr>head := [ana]\<rparr>)
   \<and> User.username bea \<notin> User.username ` set (head (first_day\<lparr>head := [ana]\<rparr>))
   \<and> head (snd (registerUser bea True (first_day\<lparr>head := [ana]\<rparr>))) = [ana, bea]
   \<and> users_dat (snd (registerUser bea True (first_day\<lparr>head := [ana]\<rparr>))) = Some [ana, bea]
   \<and> distinct (map User.username (head (snd (registerUser bea True (first_day\<lparr>head := [ana]\<rparr>)))))"
  using usernames_stay_unique [where u = "ana\<lparr>password := ''other''\<rparr>" and s = "first_day\<lparr>head := [ana]\<rparr>" and alloc = True]
    usernames_stay_unique [where u = bea and s = "first_day\<lparr>head := [ana]\<rparr>" and alloc = True]
  by (simp add: desk_defs ana_def bea_def saveUsers_def)

section \<open>Reservation identifiers grow\<close>

lemma generateReservationID_counter:
  "generateReservationID s = (counter s + 1, s\<lparr>lastID := counter s + 1\<rparr>)"
  by (simp add: generateReservationID_def counter_def Let_def)

lemma sint_add_of_nat:
  assumes "0 \<le> sint (c::cint)" and "sint c + int k < 2 ^ 31"
  shows "sint (c + of_nat k) = sint c + int k"
proof -
  have "int k < 2 ^ 31"
    using assms by linarith
  then have "k < 2 ^ 31"
    by simp
  then have "sint (of_nat k :: cint) = int k"
    by (rule sint_of_nat_small)
  then show ?thesis
    using assms sint_add_small [of c "of_nat k"] by simp
qed

lemma sint_succ:
  assumes "0 \<le> sint (c::cint)" and "sint c + 1 < 2 ^ 31"
  shows "sint (c + 1) = sint c + 1"
  using sint_add_of_nat [of c 1] assms by simp

lemma counter_step:
  assumes "0 \<le> sint (counter s)" and "sint (counter s) + 1 < 2 ^ 31"
  shows "counter (s\<lparr>lastID := counter s + 1\<rparr>) = counter s + 1"
proof -
  have "sint (counter s + 1) \<noteq> 0"
    using sint_succ [OF assms] assms(1) by simp
  then have "counter s + 1 \<noteq> 0"
    by auto
  then show ?thesis
    by (simp add: counter_def)
qed

lemma length_issue: "length (fst (issue n s)) = n"
  by (induction n arbitrary: s) (simp_all add: generateReservationID_counter split_beta)

lemma issue_nth:
  assumes "0 \<le> sint (counter s)" and "sint (counter s) + int n < 2 ^ 31" and "k < n"
  shows "fst (issue n s) ! k = counter s + 1 + of_nat k"
  using assms
proof (induction n arbitrary: s k)
  case 0
  then show ?case by simp
next
  case (Suc n)
  let ?s1 = "s\<lparr>lastID := counter s + 1\<rparr>"
  have step: "counter ?s1 = counter s + 1"
    using Suc.prems by (intro counter_step) simp_all
  have s1: "sint (counter ?s1) = sint (counter s) + 1"
    unfolding step using Suc.prems by (intro sint_succ) simp_all
  show ?case
  proof (cases k)
    case 0
    then show ?thesis
      by (simp add: generateReservationID_counter split_beta)
  next
    case (Suc k')
    have "fst (issue n ?s1) ! k' = counter ?s1 + 1 + of_nat k'"
      using Suc.prems Suc s1 by (intro Suc.IH) simp_all
    then show ?thesis
      using Suc by (simp add: generateReservationID_counter split_beta step)
  qed
qed

lemma sint_issue_nth:
  assumes "0 \<le> sint (counter s)" and "sint (counter s) + int n < 2 ^ 31" and "k < n"
  shows "sint (fst (issue n s) ! k) = sint (counter s) + 1 + int k"
proof -
  have "sint (counter s + of_nat (Suc k)) = sint (counter s) + int (Suc k)"
    using assms by (intro sint_add_of_nat) simp_all
  then show ?thesis
    using issue_nth [OF assms] by (simp add: add.assoc)
qed

lemma issue_numeral:
  "issue (numeral k) s =
     (let (x, s1) = generateReservationID s;
          (xs, s2) = issue (pred_numeral k) s1
      in (x # xs, s2))"
  by (simp add: numeral_eq_Suc)

text \<open>
  C2, as the source has it.  Let the number the run starts from (the static counter,
  or, while that is 0, the number in \<open>last_id.txt\<close>, or 1000 without the file) be
  non-negative, and let the identifiers stay below \<open>2^31\<close>.  Then every call of
  \<open>generateReservationID\<close> returns a value strictly greater than every value
  returned before in the same run; and when the last identifier issued is written by
  \<open>saveLastReservationID\<close> and a later run (its counter 0 again) starts on that file,
  every identifier of the later run is strictly greater than every identifier of the
  earlier one.
\<close>

theorem ids_increase_from_nonnegative_counter:
  assumes "0 \<le> sint (counter s)"
    and "sint (counter s) + int n + int m < 2 ^ 31"
    and "0 < n"
    and "lastID later = 0"
    and "last_id_txt later
           = last_id_txt (saveLastReservationID (last (fst (issue n s))) (snd (issue n s)))"
  shows "(\<forall>i j. i < j \<and> j < n \<longrightarrow> sint (fst (issue n s) ! i) < sint (fst (issue n s) ! j))
       \<and> (\<forall>i j. i < j \<and> j < m \<longrightarrow> sint (fst (issue m later) ! i) < sint (fst (issue m later) ! j))
       \<and> (\<forall>a \<in> set (fst (issue n s)). \<forall>b \<in> set (fst (issue m later)). sint a < sint b)"
proof -
  let ?c = "sint (counter s)"
  have n: "?c + int n < 2 ^ 31"
    using assms(2) by simp
  have first: "sint (fst (issue n s) ! k) = ?c + 1 + int k" if "k < n" for k
    using assms(1) n that by (rule sint_issue_nth)
  have "fst (issue n s) \<noteq> []"
    using assms(3) length_issue [of n s] by auto
  then have "last (fst (issue n s)) = fst (issue n s) ! (length (fst (issue n s)) - 1)"
    by (rule last_conv_nth)
  then have "last (fst (issue n s)) = fst (issue n s) ! (n - 1)"
    by (simp add: length_issue)
  then have sl: "sint (last (fst (issue n s))) = ?c + int n"
    using first [of "n - 1"] assms(3) by simp
  have cl: "counter later = last (fst (issue n s))"
    using assms(4,5) by (simp add: counter_def loadLastReservationID_def saveLastReservationID_def)
  have second: "sint (fst (issue m later) ! k) = ?c + int n + 1 + int k" if "k < m" for k
    using sint_issue_nth [of later m k] that assms(1,2) by (simp add: cl sl)
  have cross: "sint a < sint b"
    if a: "a \<in> set (fst (issue n s))" and b: "b \<in> set (fst (issue m later))" for a b
  proof -
    obtain i where "i < length (fst (issue n s))" and ai: "fst (issue n s) ! i = a"
      using a unfolding in_set_conv_nth by blast
    then have i: "i < n"
      by (simp add: length_issue)
    obtain j where "j < length (fst (issue m later))" and bj: "fst (issue m later) ! j = b"
      using b unfolding in_set_conv_nth by blast
    then have j: "j < m"
      by (simp add: length_issue)
    have "sint a = ?c + 1 + int i" and "sint b = ?c + int n + 1 + int j"
      using first [OF i] second [OF j] by (simp_all add: ai bj)
    then show ?thesis
      using i by simp
  qed
  show ?thesis
  proof (intro conjI allI impI ballI)
    fix i j
    assume "i < j \<and> j < n"
    then show "sint (fst (issue n s) ! i) < sint (fst (issue n s) ! j)"
      using first [of i] first [of j] by simp
  next
    fix i j
    assume "i < j \<and> j < m"
    then show "sint (fst (issue m later) ! i) < sint (fst (issue m later) ! j)"
      using second [of i] second [of j] by simp
  next
    fix a b
    assume "a \<in> set (fst (issue n s))" and "b \<in> set (fst (issue m later))"
    then show "sint a < sint b"
      by (rule cross)
  qed
qed

theorem ids_increase_from_nonnegative_counter_witness:
  "sint (counter first_day) = 1000
   \<and> sint (counter first_day) + int 3 + int 2 < 2 ^ 31
   \<and> fst (issue 3 first_day) = [1001, 1002, 1003]
   \<and> lastID (process_start None None (Some 1003)) = 0
   \<and> last_id_txt (process_start None None (Some 1003))
       = last_id_txt (saveLastReservationID (last (fst (issue 3 first_day))) (snd (issue 3 first_day)))
   \<and> fst (issue 2 (process_start None None (Some 1003))) = [1004, 1005]
   \<and> sint (1003 :: cint) < sint (1004 :: cint)"
proof -
  let ?later = "process_start None None (Some 1003)"
  have c: "sint (counter first_day) = 1000"
    by (simp add: counter_def loadLastReservationID_def first_day_def)
  have ids1: "fst (issue 3 first_day) = [1001, 1002, 1003]"
    apply (simp add: issue_numeral generateReservationID_counter split_beta)
    apply (simp add: counter_def loadLastReservationID_def first_day_def)
    done
  have ids2: "fst (issue 2 ?later) = [1004, 1005]"
    apply (simp add: issue_numeral generateReservationID_counter split_beta)
    apply (simp add: counter_def loadLastReservationID_def process_start_def)
    done
  have h1: "0 \<le> sint (counter first_day)"
    and h2: "sint (counter first_day) + int 3 + int 2 < 2 ^ 31"
    by (simp_all add: c)
  have h3: "0 < (3::nat)"
    by simp
  have h4: "lastID ?later = 0"
    by (simp add: process_start_def)
  have h5: "last_id_txt ?later
      = last_id_txt (saveLastReservationID (last (fst (issue 3 first_day))) (snd (issue 3 first_day)))"
    by (simp add: ids1 saveLastReservationID_def process_start_def)
  have cross: "\<forall>a \<in> set (fst (issue 3 first_day)). \<forall>b \<in> set (fst (issue 2 ?later)). sint a < sint b"
    by (rule ids_increase_from_nonnegative_counter
      [where s = first_day and n = 3 and m = 2 and later = ?later, OF h1 h2 h3 h4 h5,
       THEN conjunct2, THEN conjunct2])
  have lt: "sint (1003 :: cint) < sint (1004 :: cint)"
    using cross unfolding ids1 ids2 by simp
  show ?thesis
    by (intro conjI c h2 ids1 ids2 h4 h5 lt)
qed

text \<open>
  C2 as stated, for every call, fails: the value 0 doubles as "not loaded yet".  With
  \<open>-1\<close> in \<open>last_id.txt\<close> the first call loads \<open>-1\<close> and returns 0, the second finds
  the counter 0, loads \<open>-1\<close> again and returns 0 again.
\<close>

theorem ids_repeat_when_file_holds_minus_one:
  "fst (issue 2 (process_start None None (Some (- 1)))) = [0, 0]
   \<and> \<not> sint (fst (issue 2 (process_start None None (Some (- 1)))) ! 0)
         < sint (fst (issue 2 (process_start None None (Some (- 1)))) ! 1)"
proof -
  have "fst (issue 2 (process_start None None (Some (- 1)))) = [0, 0]"
    apply (simp add: issue_numeral generateReservationID_counter split_beta)
    apply (simp add: counter_def loadLastReservationID_def process_start_def)
    done
  then show ?thesis
    by simp
qed


section \<open>The key fields of a reservation\<close>

lemma res_keys_status [simp]: "res_keys (r\<lparr>status := st\<rparr>) = res_keys r"
  by (simp add: res_keys_def)

lemma map_res_keys_update:
  "map res_keys (rs[i := (rs ! i)\<lparr>status := st\<rparr>]) = map res_keys rs"
  by (cases "i < length rs") (simp_all add: map_update list_update_same_conv list_update_beyond)

lemma makeFlightReservation_made:
  assumes "makeFlightReservation user fn alloc s = (FlightReservationMade rid, s')"
  shows "fn \<noteq> 0" and "fn \<in> Flight.flightNumber ` set (flightsHead s)"
    and "reservationsHead s'
         = \<lparr>reservationID = rid, username = user, flightNumber = fn, hotelID = - 1,
            status = ''Pending''\<rparr> # reservationsHead s"
    and "reservations_dat s' = Some (reservationsHead s')"
    and "flightsHead s' = flightsHead s" and "hotelsHead s' = hotelsHead s"
proof -
  have guards: "fn \<noteq> 0" "\<not> sint (calculateAvailableSeats s fn) \<le> 0" "alloc"
    using assms by (auto simp: makeFlightReservation_def split: if_splits)
  show "fn \<noteq> 0" by fact
  have "findFlight fn (flightsHead s) \<noteq> None"
    using guards(2) by (cases "findFlight fn (flightsHead s)") (simp_all add: calculateAvailableSeats_def)
  then show "fn \<in> Flight.flightNumber ` set (flightsHead s)"
    by (simp add: findFlight_None_iff)
  show "reservationsHead s'
         = \<lparr>reservationID = rid, username = user, flightNumber = fn, hotelID = - 1,
            status = ''Pending''\<rparr> # reservationsHead s"
    and "reservations_dat s' = Some (reservationsHead s')"
    and "flightsHead s' = flightsHead s" and "hotelsHead s' = hotelsHead s"
    using assms guards
    by (auto simp: makeFlightReservation_def generateReservationID_def Let_def
        saveReservationsToFile_def)
qed

lemma makeHotelReservation_made:
  assumes "makeHotelReservation user hid alloc s = (HotelReservationMade rid, s')"
  shows "hid \<noteq> 0" and "hid \<in> Hotel.hotelID ` set (hotelsHead s)"
    and "reservationsHead s'
         = \<lparr>reservationID = rid, username = user, flightNumber = - 1, hotelID = hid,
            status = ''Pending''\<rparr> # reservationsHead s"
    and "reservations_dat s' = Some (reservationsHead s')"
    and "flightsHead s' = flightsHead s" and "hotelsHead s' = hotelsHead s"
proof -
  have guards: "hid \<noteq> 0" "\<not> sint (calculateAvailableRooms s hid) \<le> 0" "alloc"
    using assms by (auto simp: makeHotelReservation_def split: if_splits)
  show "hid \<noteq> 0" by fact
  have "findHotel hid (hotelsHead s) \<noteq> None"
    using guards(2) by (cases "findHotel hid (hotelsHead s)") (simp_all add: calculateAvailableRooms_def)
  then show "hid \<in> Hotel.hotelID ` set (hotelsHead s)"
    by (simp add: findHotel_None_iff)
  show "reservationsHead s'
         = \<lparr>reservationID = rid, username = user, flightNumber = - 1, hotelID = hid,
            status = ''Pending''\<rparr> # reservationsHead s"
    and "reservations_dat s' = Some (reservationsHead s')"
    and "flightsHead s' = flightsHead s" and "hotelsHead s' = hotelsHead s"
    using assms guards
    by (auto simp: makeHotelReservation_def generateReservationID_def Let_def
        saveReservationsToFile_def)
qed

lemma has_sentinel_res_keys:
  "has_sentinel r = (snd (res_keys r) = - 1 \<and> fst (res_keys r) \<noteq> 0
               \<or> fst (res_keys r) = - 1 \<and> snd (res_keys r) \<noteq> 0)"
  by (simp add: has_sentinel_def res_keys_def)

lemma all_has_sentinel_map:
  "(\<forall>r \<in> set rs. has_sentinel r)
     = list_all (\<lambda>k. snd k = - 1 \<and> fst k \<noteq> 0 \<or> fst k = - 1 \<and> snd k \<noteq> 0) (map res_keys rs)"
  by (induction rs) (simp_all add: has_sentinel_res_keys)

lemma same_keys_has_sentinel:
  assumes "map res_keys rs' = map res_keys rs"
  shows "(\<forall>r \<in> set rs'. has_sentinel r) = (\<forall>r \<in> set rs. has_sentinel r)"
  unfolding all_has_sentinel_map assms ..

lemma strcpy_status_keys:
  "map res_keys (reservationsHead (strcpy_status i st s)) = map res_keys (reservationsHead s)"
  by (simp add: strcpy_status_def map_res_keys_update)

lemma cancelUserReservation_keys:
  "map res_keys (reservationsHead (snd (cancelUserReservation user resID s)))
     = map res_keys (reservationsHead s)"
  by (simp add: cancelUserReservation_def saveReservationsToFile_simps strcpy_status_keys
      split: option.splits)

lemma handleReservationApproval_keys:
  "map res_keys (reservationsHead (snd (handleReservationApproval resID decision s)))
     = map res_keys (reservationsHead s)"
  by (simp add: handleReservationApproval_def saveReservationsToFile_simps strcpy_status_keys
      split: option.splits)

lemma handleCancellationRequests_keys:
  "map res_keys (reservationsHead (snd (handleCancellationRequests resID word s)))
     = map res_keys (reservationsHead s)"
  by (simp add: handleCancellationRequests_def saveReservationsToFile_simps strcpy_status_keys
      Let_def split: option.splits)

lemma makeFlightReservation_cases:
  "snd (makeFlightReservation user fn alloc s) = s
   \<or> (\<exists>rid. makeFlightReservation user fn alloc s
             = (FlightReservationMade rid, snd (makeFlightReservation user fn alloc s)))"
  by (simp add: makeFlightReservation_def Let_def split_beta)

lemma makeHotelReservation_cases:
  "snd (makeHotelReservation user hid alloc s) = s
   \<or> (\<exists>rid. makeHotelReservation user hid alloc s
             = (HotelReservationMade rid, snd (makeHotelReservation user hid alloc s)))"
  by (simp add: makeHotelReservation_def Let_def split_beta)

lemma nextReservationID_frame:
  "reservationsHead (nextReservationID s) = reservationsHead s"
  "reservations_dat (nextReservationID s) = reservations_dat s"
  by (simp_all add: nextReservationID_def generateReservationID_def saveLastReservationID_def
      Let_def)

lemma exec_keys:
  "map res_keys (reservationsHead (exec c s)) = map res_keys (reservationsHead s)
   \<or> (\<exists>r. reservationsHead (exec c s) = r # reservationsHead s \<and> has_sentinel r)"
proof (cases c)
  case (MakeFlightReservation user fn alloc)
  show ?thesis
    using makeFlightReservation_cases [of user fn alloc s]
  proof
    assume "snd (makeFlightReservation user fn alloc s) = s"
    then show ?thesis by (simp add: MakeFlightReservation)
  next
    assume "\<exists>rid. makeFlightReservation user fn alloc s
             = (FlightReservationMade rid, snd (makeFlightReservation user fn alloc s))"
    then obtain rid where "makeFlightReservation user fn alloc s
             = (FlightReservationMade rid, snd (makeFlightReservation user fn alloc s))" ..
    from makeFlightReservation_made(1,3) [OF this] show ?thesis
      by (simp add: MakeFlightReservation has_sentinel_def)
  qed
next
  case (MakeHotelReservation user hid alloc)
  show ?thesis
    using makeHotelReservation_cases [of user hid alloc s]
  proof
    assume "snd (makeHotelReservation user hid alloc s) = s"
    then show ?thesis by (simp add: MakeHotelReservation)
  next
    assume "\<exists>rid. makeHotelReservation user hid alloc s
             = (HotelReservationMade rid, snd (makeHotelReservation user hid alloc s))"
    then obtain rid where "makeHotelReservation user hid alloc s
             = (HotelReservationMade rid, snd (makeHotelReservation user hid alloc s))" ..
    from makeHotelReservation_made(1,3) [OF this] show ?thesis
      by (simp add: MakeHotelReservation has_sentinel_def)
  qed
qed (simp_all add: cancelUserReservation_keys handleReservationApproval_keys
      handleCancellationRequests_keys nextReservationID_frame saveReservationsToFile_simps
      registerUser_def deleteUser_def addFlight_def deleteFlight_def editFlight_def
      addHotel_def deleteHotel_def editHotel_def saveUsers_def split: option.splits)

lemma exec_file:
  "reservations_dat (exec c s) = reservations_dat s
   \<or> reservations_dat (exec c s) = Some (reservationsHead (exec c s))"
proof (cases c)
  case (MakeFlightReservation user fn alloc)
  show ?thesis
    using makeFlightReservation_cases [of user fn alloc s]
  proof
    assume "snd (makeFlightReservation user fn alloc s) = s"
    then show ?thesis by (simp add: MakeFlightReservation)
  next
    assume "\<exists>rid. makeFlightReservation user fn alloc s
             = (FlightReservationMade rid, snd (makeFlightReservation user fn alloc s))"
    then obtain rid where "makeFlightReservation user fn alloc s
             = (FlightReservationMade rid, snd (makeFlightReservation user fn alloc s))" ..
    from makeFlightReservation_made(4) [OF this] show ?thesis
      by (simp add: MakeFlightReservation)
  qed
next
  case (MakeHotelReservation user hid alloc)
  show ?thesis
    using makeHotelReservation_cases [of user hid alloc s]
  proof
    assume "snd (makeHotelReservation user hid alloc s) = s"
    then show ?thesis by (simp add: MakeHotelReservation)
  next
    assume "\<exists>rid. makeHotelReservation user hid alloc s
             = (HotelReservationMade rid, snd (makeHotelReservation user hid alloc s))"
    then obtain rid where "makeHotelReservation user hid alloc s
             = (HotelReservationMade rid, snd (makeHotelReservation user hid alloc s))" ..
    from makeHotelReservation_made(4) [OF this] show ?thesis
      by (simp add: MakeHotelReservation)
  qed
qed (simp_all add: cancelUserReservation_def handleReservationApproval_def
      handleCancellationRequests_def nextReservationID_frame saveReservationsToFile_simps
      registerUser_def deleteUser_def addFlight_def deleteFlight_def editFlight_def
      addHotel_def deleteHotel_def editHotel_def saveUsers_def Let_def split: option.splits)

lemma loadUsers_frame:
  "reservationsHead (loadUsers s) = reservationsHead s"
  "reservations_dat (loadUsers s) = reservations_dat s"
  by (simp_all add: loadUsers_def split: option.splits)

lemma loadFlightsFromFile_frame:
  assumes "loadFlightsFromFile ff s = Some s1"
  shows "reservationsHead s1 = reservationsHead s" and "reservations_dat s1 = reservations_dat s"
  using assms
  by (auto simp: loadFlightsFromFile_def split: option.splits list.splits if_splits)

lemma loadHotelsFromFile_frame:
  assumes "loadHotelsFromFile hf s = Some s1"
  shows "reservationsHead s1 = reservationsHead s" and "reservations_dat s1 = reservations_dat s"
  using assms
  by (auto simp: loadHotelsFromFile_def split: option.splits list.splits if_splits)

lemma loadReservationsFromFile_result:
  "reservationsHead (loadReservationsFromFile s)
     = (case reservations_dat s of None \<Rightarrow> reservationsHead s | Some rs \<Rightarrow> rs)"
  "reservations_dat (loadReservationsFromFile s) = reservations_dat s"
  by (simp_all add: loadReservationsFromFile_def split: option.splits)

lemma main_load_start:
  assumes "main_load ff hf (process_start ud rd lid) = Some s'"
  shows "reservationsHead s' = (case rd of None \<Rightarrow> [] | Some rs \<Rightarrow> rs)"
    and "reservations_dat s' = rd"
proof -
  obtain s1 s2 where s1: "loadFlightsFromFile ff (loadUsers (process_start ud rd lid)) = Some s1"
    and s2: "loadHotelsFromFile hf s1 = Some s2"
    and s': "s' = loadReservationsFromFile s2"
    using assms by (auto simp: main_load_def split: option.splits)
  have "reservationsHead s2 = []" and "reservations_dat s2 = rd"
    using loadFlightsFromFile_frame [OF s1] loadHotelsFromFile_frame [OF s2]
    by (simp_all add: loadUsers_frame process_start_def)
  then show "reservationsHead s' = (case rd of None \<Rightarrow> [] | Some rs \<Rightarrow> rs)"
    and "reservations_dat s' = rd"
    by (simp_all add: s' loadReservationsFromFile_result split: option.splits)
qed

lemma exec_has_sentinel:
  assumes mem: "\<forall>r \<in> set (reservationsHead s). has_sentinel r"
    and dat: "\<forall>rs. reservations_dat s = Some rs \<longrightarrow> (\<forall>r \<in> set rs. has_sentinel r)"
  shows "\<forall>r \<in> set (reservationsHead (exec c s)). has_sentinel r"
    and "\<forall>rs. reservations_dat (exec c s) = Some rs \<longrightarrow> (\<forall>r \<in> set rs. has_sentinel r)"
proof -
  show mem': "\<forall>r \<in> set (reservationsHead (exec c s)). has_sentinel r"
    using exec_keys [of c s]
  proof
    assume "map res_keys (reservationsHead (exec c s)) = map res_keys (reservationsHead s)"
    from same_keys_has_sentinel [OF this] show ?thesis
      using mem by (rule iffD2)
  next
    assume "\<exists>r. reservationsHead (exec c s) = r # reservationsHead s \<and> has_sentinel r"
    then show ?thesis
      using mem by auto
  qed
  show "\<forall>rs. reservations_dat (exec c s) = Some rs \<longrightarrow> (\<forall>r \<in> set rs. has_sentinel r)"
  proof (intro allI impI)
    fix rs
    assume rs: "reservations_dat (exec c s) = Some rs"
    from exec_file [of c s] show "\<forall>r \<in> set rs. has_sentinel r"
    proof
      assume "reservations_dat (exec c s) = reservations_dat s"
      then have "reservations_dat s = Some rs"
        using rs by simp
      then show ?thesis
        using dat by simp
    next
      assume "reservations_dat (exec c s) = Some (reservationsHead (exec c s))"
      then have "rs = reservationsHead (exec c s)"
        using rs by simp
      then show ?thesis
        using mem' by simp
    qed
  qed
qed

lemma reachable_has_sentinel:
  "reachable s \<Longrightarrow>
     (\<forall>r \<in> set (reservationsHead s). has_sentinel r)
     \<and> (\<forall>rs. reservations_dat s = Some rs \<longrightarrow> (\<forall>r \<in> set rs. has_sentinel r))"
proof (induction rule: reachable.induct)
  case (first_start ff hf ud lid s)
  from main_load_start [OF first_start] show ?case
    by simp
next
  case (command s c)
  then have mem: "\<forall>r \<in> set (reservationsHead s). has_sentinel r"
    and dat: "\<forall>rs. reservations_dat s = Some rs \<longrightarrow> (\<forall>r \<in> set rs. has_sentinel r)"
    by simp_all
  from exec_has_sentinel [OF mem dat] show ?case
    by (intro conjI)
next
  case (restart s ff hf s')
  then have dat: "\<forall>rs. reservations_dat s = Some rs \<longrightarrow> (\<forall>r \<in> set rs. has_sentinel r)"
    by simp
  have "reservationsHead s' = (case reservations_dat s of None \<Rightarrow> [] | Some rs \<Rightarrow> rs)"
    and same: "reservations_dat s' = reservations_dat s"
    using main_load_start [OF restart.hyps(2)] by simp_all
  then have "\<forall>r \<in> set (reservationsHead s'). has_sentinel r"
    using dat by (cases "reservations_dat s") simp_all
  then show ?case
    using dat by (simp add: same)
qed

lemma first_day_reachable: "reachable first_day"
proof -
  have "main_load (Some [flight7]) (Some [hotel3]) (process_start None None None) = Some first_day"
    by (simp add: main_load_def loadUsers_def loadFlightsFromFile_def loadHotelsFromFile_def
        loadReservationsFromFile_def process_start_def first_day_def)
  then show ?thesis
    by (rule reachable.first_start)
qed

lemma first_booking:
  "makeFlightReservation ''ana'' 7 True first_day
     = (FlightReservationMade 1001,
        first_day\<lparr>reservationsHead := [booking 1001 ''ana'' ''Pending''], lastID := 1001,
                  reservations_dat := Some [booking 1001 ''ana'' ''Pending'']\<rparr>)"
proof -
  have "sint (calculateAvailableSeats first_day 7) = 1"
    by (simp add: calculateAvailableSeats_def countReservationsByFlight_def desk_defs)
  moreover have "generateReservationID first_day = (1001, first_day\<lparr>lastID := 1001\<rparr>)"
    by (simp add: generateReservationID_def loadLastReservationID_def first_day_def)
  ultimately show ?thesis
    by (simp add: makeFlightReservation_def saveReservationsToFile_def booking_def)
       (simp add: first_day_def Let_def)
qed

lemma second_booking:
  "reservationsHead
     (snd (makeHotelReservation ''bea'' 3 True
        (first_day\<lparr>reservationsHead := [booking 1001 ''ana'' ''Pending''], lastID := 1001,
                   reservations_dat := Some [booking 1001 ''ana'' ''Pending'']\<rparr>)))
     = [\<lparr>reservationID = 1002, username = ''bea'', flightNumber = - 1, hotelID = 3,
          status = ''Pending''\<rparr>, booking 1001 ''ana'' ''Pending'']"
proof -
  let ?s1 = "first_day\<lparr>reservationsHead := [booking 1001 ''ana'' ''Pending''], lastID := 1001,
                  reservations_dat := Some [booking 1001 ''ana'' ''Pending'']\<rparr>"
  have "sint (calculateAvailableRooms ?s1 3) = 2"
    by (simp add: calculateAvailableRooms_def countReservationsByHotel_def desk_defs)
  moreover have "generateReservationID ?s1 = (1002, ?s1\<lparr>lastID := 1002\<rparr>)"
    by (simp add: generateReservationID_def)
  ultimately show ?thesis
    by (simp add: makeHotelReservation_def saveReservationsToFile_def Let_def)
qed

lemma two_bookings_list:
  "reservationsHead two_bookings
     = [\<lparr>reservationID = 1002, username = ''bea'', flightNumber = - 1, hotelID = 3,
          status = ''Pending''\<rparr>,
        \<lparr>reservationID = 1001, username = ''ana'', flightNumber = 7, hotelID = - 1,
          status = ''Pending''\<rparr>]"
  by (simp add: two_bookings_def first_booking second_booking) (simp add: booking_def)


lemma exactly_one_key_res_keys:
  "exactly_one_key r = ((fst (res_keys r) = - 1) \<noteq> (snd (res_keys r) = - 1))"
  by (simp add: exactly_one_key_def res_keys_def)

lemma list_all_exactly_one_map:
  "list_all exactly_one_key rs
     = list_all (\<lambda>k. (fst k = - 1) \<noteq> (snd k = - 1)) (map res_keys rs)"
  by (induction rs) (simp_all add: exactly_one_key_res_keys)

lemma same_keys_exactly_one:
  assumes "map res_keys rs' = map res_keys rs"
  shows "list_all exactly_one_key rs' = list_all exactly_one_key rs"
  unfolding list_all_exactly_one_map assms ..

lemma exec_keys_cases:
  "map res_keys (reservationsHead (exec c s)) = map res_keys (reservationsHead s)
   \<or> (\<exists>user fn alloc r. c = MakeFlightReservation user fn alloc
         \<and> reservationsHead (exec c s) = r # reservationsHead s \<and> res_keys r = (fn, - 1))
   \<or> (\<exists>user hid alloc r. c = MakeHotelReservation user hid alloc
         \<and> reservationsHead (exec c s) = r # reservationsHead s \<and> res_keys r = (- 1, hid))"
proof (cases c)
  case (MakeFlightReservation user fn alloc)
  show ?thesis
    using makeFlightReservation_cases [of user fn alloc s]
  proof
    assume "snd (makeFlightReservation user fn alloc s) = s"
    then show ?thesis by (simp add: MakeFlightReservation)
  next
    assume "\<exists>rid. makeFlightReservation user fn alloc s
             = (FlightReservationMade rid, snd (makeFlightReservation user fn alloc s))"
    then obtain rid where "makeFlightReservation user fn alloc s
             = (FlightReservationMade rid, snd (makeFlightReservation user fn alloc s))" ..
    from makeFlightReservation_made(3) [OF this] show ?thesis
      by (simp add: MakeFlightReservation res_keys_def)
  qed
next
  case (MakeHotelReservation user hid alloc)
  show ?thesis
    using makeHotelReservation_cases [of user hid alloc s]
  proof
    assume "snd (makeHotelReservation user hid alloc s) = s"
    then show ?thesis by (simp add: MakeHotelReservation)
  next
    assume "\<exists>rid. makeHotelReservation user hid alloc s
             = (HotelReservationMade rid, snd (makeHotelReservation user hid alloc s))"
    then obtain rid where "makeHotelReservation user hid alloc s
             = (HotelReservationMade rid, snd (makeHotelReservation user hid alloc s))" ..
    from makeHotelReservation_made(3) [OF this] show ?thesis
      by (simp add: MakeHotelReservation res_keys_def)
  qed
qed (simp_all add: cancelUserReservation_keys handleReservationApproval_keys
      handleCancellationRequests_keys nextReservationID_frame saveReservationsToFile_simps
      registerUser_def deleteUser_def addFlight_def deleteFlight_def editFlight_def
      addHotel_def deleteHotel_def editHotel_def saveUsers_def split: option.splits)

lemma exec_exactly_one_memory:
  assumes "list_all exactly_one_key (reservationsHead s)" and "\<not> books_sentinel c"
  shows "list_all exactly_one_key (reservationsHead (exec c s))"
proof -
  from exec_keys_cases [of c s] consider
    (same) "map res_keys (reservationsHead (exec c s)) = map res_keys (reservationsHead s)"
    | (flight) user fn alloc r where "c = MakeFlightReservation user fn alloc"
        "reservationsHead (exec c s) = r # reservationsHead s" "res_keys r = (fn, - 1)"
    | (hotel) user hid alloc r where "c = MakeHotelReservation user hid alloc"
        "reservationsHead (exec c s) = r # reservationsHead s" "res_keys r = (- 1, hid)"
    by blast
  then show ?thesis
  proof cases
    case same
    from same_keys_exactly_one [OF this] show ?thesis
      using assms(1) by (rule iffD2)
  next
    case flight
    then have "exactly_one_key r"
      using assms(2) by (simp add: exactly_one_key_res_keys)
    then show ?thesis
      using assms(1) flight(2) by simp
  next
    case hotel
    then have "exactly_one_key r"
      using assms(2) by (simp add: exactly_one_key_res_keys)
    then show ?thesis
      using assms(1) hotel(2) by simp
  qed
qed

lemma exec_all_exactly_one:
  assumes "all_exactly_one s" and "\<not> books_sentinel c"
  shows "all_exactly_one (exec c s)"
proof -
  have mem: "list_all exactly_one_key (reservationsHead (exec c s))"
    using assms by (intro exec_exactly_one_memory) (simp_all add: all_exactly_one_def)
  from exec_file [of c s]
  have "case reservations_dat (exec c s) of None \<Rightarrow> True | Some rs \<Rightarrow> list_all exactly_one_key rs"
  proof
    assume "reservations_dat (exec c s) = reservations_dat s"
    then show ?thesis
      using assms(1) by (simp add: all_exactly_one_def)
  next
    assume "reservations_dat (exec c s) = Some (reservationsHead (exec c s))"
    then show ?thesis
      using mem by simp
  qed
  with mem show ?thesis
    by (simp add: all_exactly_one_def)
qed

lemma first_start_all_exactly_one:
  assumes "main_load ff hf (process_start ud None lid) = Some s"
  shows "all_exactly_one s"
  using main_load_start [OF assms] by (simp add: all_exactly_one_def)

lemma restart_all_exactly_one:
  assumes "all_exactly_one s"
    and "main_load ff hf (process_start (users_dat s) (reservations_dat s) (last_id_txt s)) = Some s'"
  shows "all_exactly_one s'"
  using main_load_start [OF assms(2)] assms(1)
  by (cases "reservations_dat s") (simp_all add: all_exactly_one_def)

text \<open>
  C5, as the source has it.  A reservation created by \<open>makeFlightReservation\<close> carries
  the number typed in \<open>flightNumber\<close>, which is the number of a flight of the list and
  not 0, and the sentinel \<open>-1\<close> in \<open>hotelID\<close>; one created by \<open>makeHotelReservation\<close>
  carries the identifier of a hotel of the list, not 0, in \<open>hotelID\<close> and \<open>-1\<close> in
  \<open>flightNumber\<close>.  Every command either leaves the two fields of all reservations as
  they are, in the same order, or puts one such new reservation in front of the list.
  So in every reachable state every reservation has the sentinel in one of the two
  fields and a non-zero number in the other.  Exactly one of the two fields differs
  from \<open>-1\<close> in every reservation, in memory and in \<open>reservations.dat\<close>, after a first
  start, after a restart, and after every command other than a booking of a flight or
  hotel that is itself numbered \<open>-1\<close>.
\<close>

theorem reservation_keys_are_kept:
  "(makeFlightReservation user fn alloc s = (FlightReservationMade rid, s') \<longrightarrow>
      fn \<in> Flight.flightNumber ` set (flightsHead s) \<and> fn \<noteq> 0
      \<and> reservationsHead s'
          = \<lparr>reservationID = rid, username = user, flightNumber = fn, hotelID = - 1,
             status = ''Pending''\<rparr> # reservationsHead s)
   \<and> (makeHotelReservation user hid alloc s = (HotelReservationMade rid, s') \<longrightarrow>
      hid \<in> Hotel.hotelID ` set (hotelsHead s) \<and> hid \<noteq> 0
      \<and> reservationsHead s'
          = \<lparr>reservationID = rid, username = user, flightNumber = - 1, hotelID = hid,
             status = ''Pending''\<rparr> # reservationsHead s)
   \<and> (map res_keys (reservationsHead (exec c s)) = map res_keys (reservationsHead s)
      \<or> (\<exists>r. reservationsHead (exec c s) = r # reservationsHead s \<and> has_sentinel r))
   \<and> (reachable s \<longrightarrow> (\<forall>r \<in> set (reservationsHead s). has_sentinel r))
   \<and> (main_load ff hf (process_start ud None lid) = Some s \<longrightarrow> all_exactly_one s)
   \<and> (all_exactly_one s \<and> \<not> books_sentinel c \<longrightarrow> all_exactly_one (exec c s))
   \<and> (all_exactly_one s
        \<and> main_load ff hf (process_start (users_dat s) (reservations_dat s) (last_id_txt s)) = Some s'
      \<longrightarrow> all_exactly_one s')"
proof (intro conjI impI)
  assume "makeFlightReservation user fn alloc s = (FlightReservationMade rid, s')"
  then show "fn \<in> Flight.flightNumber ` set (flightsHead s)" and "fn \<noteq> 0"
    and "reservationsHead s'
          = \<lparr>reservationID = rid, username = user, flightNumber = fn, hotelID = - 1,
             status = ''Pending''\<rparr> # reservationsHead s"
    by (rule makeFlightReservation_made(2), rule makeFlightReservation_made(1),
        rule makeFlightReservation_made(3))
next
  assume "makeHotelReservation user hid alloc s = (HotelReservationMade rid, s')"
  then show "hid \<in> Hotel.hotelID ` set (hotelsHead s)" and "hid \<noteq> 0"
    and "reservationsHead s'
          = \<lparr>reservationID = rid, username = user, flightNumber = - 1, hotelID = hid,
             status = ''Pending''\<rparr> # reservationsHead s"
    by (rule makeHotelReservation_made(2), rule makeHotelReservation_made(1),
        rule makeHotelReservation_made(3))
next
  show "map res_keys (reservationsHead (exec c s)) = map res_keys (reservationsHead s)
      \<or> (\<exists>r. reservationsHead (exec c s) = r # reservationsHead s \<and> has_sentinel r)"
    by (rule exec_keys)
next
  assume "reachable s"
  then show "\<forall>r \<in> set (reservationsHead s). has_sentinel r"
    by (rule reachable_has_sentinel [THEN conjunct1])
next
  assume "main_load ff hf (process_start ud None lid) = Some s"
  then show "all_exactly_one s"
    by (rule first_start_all_exactly_one)
next
  assume "all_exactly_one s \<and> \<not> books_sentinel c"
  then show "all_exactly_one (exec c s)"
    by (intro exec_all_exactly_one) simp_all
next
  assume "all_exactly_one s
        \<and> main_load ff hf (process_start (users_dat s) (reservations_dat s) (last_id_txt s)) = Some s'"
  then show "all_exactly_one s'"
    by (elim conjE) (rule restart_all_exactly_one)
qed

theorem reservation_keys_are_kept_witness:
  "makeFlightReservation ''ana'' 7 True first_day
     = (FlightReservationMade 1001,
        first_day\<lparr>reservationsHead := [booking 1001 ''ana'' ''Pending''], lastID := 1001,
                  reservations_dat := Some [booking 1001 ''ana'' ''Pending'']\<rparr>)
   \<and> 7 \<in> Flight.flightNumber ` set (flightsHead first_day)
   \<and> reachable two_bookings
   \<and> reservationsHead two_bookings
       = [\<lparr>reservationID = 1002, username = ''bea'', flightNumber = - 1, hotelID = 3,
            status = ''Pending''\<rparr>,
          \<lparr>reservationID = 1001, username = ''ana'', flightNumber = 7, hotelID = - 1,
            status = ''Pending''\<rparr>]
   \<and> has_sentinel \<lparr>reservationID = 1002, username = ''bea'', flightNumber = - 1, hotelID = 3,
            status = ''Pending''\<rparr>
   \<and> has_sentinel \<lparr>reservationID = 1001, username = ''ana'', flightNumber = 7, hotelID = - 1,
            status = ''Pending''\<rparr>
   \<and> main_load (Some [flight7]) (Some [hotel3]) (process_start None None None) = Some first_day
   \<and> all_exactly_one first_day
   \<and> \<not> books_sentinel (MakeFlightReservation ''ana'' 7 True)
   \<and> \<not> books_sentinel (MakeHotelReservation ''bea'' 3 True)
   \<and> all_exactly_one two_bookings
   \<and> exactly_one_key \<lparr>reservationID = 1002, username = ''bea'', flightNumber = - 1, hotelID = 3,
            status = ''Pending''\<rparr>
   \<and> exactly_one_key \<lparr>reservationID = 1001, username = ''ana'', flightNumber = 7, hotelID = - 1,
            status = ''Pending''\<rparr>"
proof -
  have r: "reachable two_bookings"
    unfolding two_bookings_def by (intro reachable.command first_day_reachable)
  have k: "7 \<in> Flight.flightNumber ` set (flightsHead first_day)"
    using first_booking
    by (rule reservation_keys_are_kept [THEN conjunct1, THEN mp, THEN conjunct1])
  have o: "\<forall>r \<in> set (reservationsHead two_bookings). has_sentinel r"
    using r
    by (rule reservation_keys_are_kept [where s = two_bookings, THEN conjunct2, THEN conjunct2,
        THEN conjunct2, THEN conjunct1, THEN mp])
  have m: "main_load (Some [flight7]) (Some [hotel3]) (process_start None None None) = Some first_day"
    by (simp add: main_load_def loadUsers_def loadFlightsFromFile_def loadHotelsFromFile_def
        loadReservationsFromFile_def process_start_def first_day_def)
  have e0: "all_exactly_one first_day"
    using m
    by (rule reservation_keys_are_kept [THEN conjunct2, THEN conjunct2, THEN conjunct2,
        THEN conjunct2, THEN conjunct1, THEN mp])
  have n1: "\<not> books_sentinel (MakeFlightReservation ''ana'' 7 True)"
    and n2: "\<not> books_sentinel (MakeHotelReservation ''bea'' 3 True)"
    by simp_all
  have e1: "all_exactly_one (exec (MakeFlightReservation ''ana'' 7 True) first_day)"
    by (rule reservation_keys_are_kept [THEN conjunct2, THEN conjunct2, THEN conjunct2,
        THEN conjunct2, THEN conjunct2, THEN conjunct1, THEN mp, OF conjI [OF e0 n1]])
  have e2: "all_exactly_one two_bookings"
    unfolding two_bookings_def
    by (rule reservation_keys_are_kept [THEN conjunct2, THEN conjunct2, THEN conjunct2,
        THEN conjunct2, THEN conjunct2, THEN conjunct1, THEN mp, OF conjI [OF e1 n2]])
  have "list_all exactly_one_key (reservationsHead two_bookings)"
    using e2 by (simp add: all_exactly_one_def)
  then have x: "exactly_one_key \<lparr>reservationID = 1002, username = ''bea'', flightNumber = - 1,
            hotelID = 3, status = ''Pending''\<rparr>
      \<and> exactly_one_key \<lparr>reservationID = 1001, username = ''ana'', flightNumber = 7, hotelID = - 1,
            status = ''Pending''\<rparr>"
    by (simp add: two_bookings_list)
  show ?thesis
    using r k o m e0 n1 n2 e2 x first_booking by (simp add: two_bookings_list)
qed

lemma sentinel_booking_list:
  "reservationsHead sentinel_booking
     = [\<lparr>reservationID = 1001, username = ''ana'', flightNumber = - 1, hotelID = - 1,
          status = ''Pending''\<rparr>]"
proof -
  let ?s1 = "first_day\<lparr>flightsHead := [flight_minus_one, flight7]\<rparr>"
  have added: "snd (addFlight flight_minus_one True first_day) = ?s1"
    by (simp add: addFlight_def flightExists_def desk_defs flight_minus_one_def)
  have "sint (calculateAvailableSeats ?s1 (- 1)) = 2"
    by (simp add: calculateAvailableSeats_def countReservationsByFlight_def desk_defs
        flight_minus_one_def)
  moreover have "generateReservationID ?s1 = (1001, ?s1\<lparr>lastID := 1001\<rparr>)"
    by (simp add: generateReservationID_def loadLastReservationID_def first_day_def)
  ultimately have "reservationsHead (snd (makeFlightReservation ''ana'' (- 1) True ?s1))
     = [\<lparr>reservationID = 1001, username = ''ana'', flightNumber = - 1, hotelID = - 1,
          status = ''Pending''\<rparr>]"
    by (simp add: makeFlightReservation_def saveReservationsToFile_def Let_def)
       (simp add: first_day_def)
  then show ?thesis
    by (simp add: sentinel_booking_def added)
qed

text \<open>
  C5 as stated, exactly one field set in every reachable state, fails: \<open>addFlight\<close>
  accepts the flight number \<open>-1\<close> and \<open>makeFlightReservation\<close> refuses only 0.  The
  reservation of that flight has \<open>-1\<close> in \<open>flightNumber\<close> and in \<open>hotelID\<close>.
\<close>

theorem booking_flight_minus_one_sets_neither_field:
  "reachable sentinel_booking
   \<and> reservationsHead sentinel_booking
       = [\<lparr>reservationID = 1001, username = ''ana'', flightNumber = - 1, hotelID = - 1,
            status = ''Pending''\<rparr>]
   \<and> Reservation.flightNumber (hd (reservationsHead sentinel_booking)) = - 1
   \<and> Reservation.hotelID (hd (reservationsHead sentinel_booking)) = - 1
   \<and> \<not> exactly_one_key (hd (reservationsHead sentinel_booking))"
proof -
  have "reachable sentinel_booking"
    unfolding sentinel_booking_def by (intro reachable.command first_day_reachable)
  then show ?thesis
    by (simp add: sentinel_booking_list exactly_one_key_def)
qed


section \<open>Overbooking\<close>

text \<open>
  The two booking functions keep \<open>no_overbooking\<close>: they only ever add a reservation
  whose status is \<open>Pending\<close>.  Drawing an identifier does not touch it either.
\<close>

lemma no_overbooking_push_pending:
  assumes "flightsHead s' = flightsHead s" and "hotelsHead s' = hotelsHead s"
    and "reservationsHead s' = r # reservationsHead s" and "status r = ''Pending''"
  shows "no_overbooking s' = no_overbooking s"
  using assms
  by (simp add: no_overbooking_def countReservationsByFlight_def countReservationsByHotel_def
      countByFlight_loop_eq countByHotel_loop_eq)

lemma makeFlightReservation_no_overbooking:
  "no_overbooking (snd (makeFlightReservation user fn alloc s)) = no_overbooking s"
  using makeFlightReservation_cases [of user fn alloc s]
proof
  assume "snd (makeFlightReservation user fn alloc s) = s"
  then show ?thesis by simp
next
  assume "\<exists>rid. makeFlightReservation user fn alloc s
             = (FlightReservationMade rid, snd (makeFlightReservation user fn alloc s))"
  then obtain rid where "makeFlightReservation user fn alloc s
             = (FlightReservationMade rid, snd (makeFlightReservation user fn alloc s))" ..
  from makeFlightReservation_made(5,6,3) [OF this] show ?thesis
    by (rule no_overbooking_push_pending) simp
qed

lemma makeHotelReservation_no_overbooking:
  "no_overbooking (snd (makeHotelReservation user hid alloc s)) = no_overbooking s"
  using makeHotelReservation_cases [of user hid alloc s]
proof
  assume "snd (makeHotelReservation user hid alloc s) = s"
  then show ?thesis by simp
next
  assume "\<exists>rid. makeHotelReservation user hid alloc s
             = (HotelReservationMade rid, snd (makeHotelReservation user hid alloc s))"
  then obtain rid where "makeHotelReservation user hid alloc s
             = (HotelReservationMade rid, snd (makeHotelReservation user hid alloc s))" ..
  from makeHotelReservation_made(5,6,3) [OF this] show ?thesis
    by (rule no_overbooking_push_pending) simp
qed

lemma nextReservationID_no_overbooking:
  "no_overbooking (nextReservationID s) = no_overbooking s"
  by (simp add: no_overbooking_def countReservationsByFlight_def countReservationsByHotel_def
      nextReservationID_def generateReservationID_def saveLastReservationID_def Let_def)

lemma booking_beside_pending:
  "makeFlightReservation ''bea'' 7 True
     (nextReservationID
        (first_day\<lparr>reservationsHead := [booking 1001 ''ana'' ''Pending''], lastID := 1001,
                   reservations_dat := Some [booking 1001 ''ana'' ''Pending'']\<rparr>))
     = (FlightReservationMade 1003,
        first_day\<lparr>reservationsHead := [booking 1003 ''bea'' ''Pending'', booking 1001 ''ana'' ''Pending''],
                  lastID := 1003,
                  reservations_dat := Some [booking 1003 ''bea'' ''Pending'', booking 1001 ''ana'' ''Pending''],
                  last_id_txt := Some 1002\<rparr>)"
proof -
  let ?s1 = "first_day\<lparr>reservationsHead := [booking 1001 ''ana'' ''Pending''], lastID := 1001,
                  reservations_dat := Some [booking 1001 ''ana'' ''Pending'']\<rparr>"
  have next_id: "nextReservationID ?s1 = ?s1\<lparr>lastID := 1002, last_id_txt := Some 1002\<rparr>"
    by (simp add: nextReservationID_def generateReservationID_def saveLastReservationID_def)
  let ?s2 = "?s1\<lparr>lastID := 1002, last_id_txt := Some 1002\<rparr>"
  have "sint (calculateAvailableSeats ?s2 7) = 1"
    by (simp add: calculateAvailableSeats_def countReservationsByFlight_def desk_defs)
  moreover have "generateReservationID ?s2 = (1003, ?s2\<lparr>lastID := 1003\<rparr>)"
    by (simp add: generateReservationID_def)
  ultimately show ?thesis
    unfolding next_id
    by (simp add: makeFlightReservation_def saveReservationsToFile_def booking_def Let_def)
qed

lemma two_approvals_result:
  "run two_approvals first_day
     = first_day\<lparr>reservationsHead := [booking 1003 ''bea'' ''Approved'', booking 1001 ''ana'' ''Approved''],
                 lastID := 1004,
                 reservations_dat := Some [booking 1003 ''bea'' ''Approved'', booking 1001 ''ana'' ''Approved''],
                 last_id_txt := Some 1004\<rparr>"
  by (simp add: two_approvals_def first_booking booking_beside_pending)
     (simp add: handleReservationApproval_def strcpy_status_def saveReservationsToFile_def
       nextReservationID_def generateReservationID_def saveLastReservationID_def
       booking_def first_day_def)

text \<open>
  C1.  The source means to exclude overbooking (\<open>calculateAvailableSeats\<close> is
  documented as making sure there is none), but the check at booking time counts only
  approved reservations and \<open>handleReservationApproval\<close> checks nothing.  On the first
  day, with one seat on flight 7, two users book the flight through the user menu; no
  flight or hotel is overbooked then.  The administrator approves both reservations:
  the flight then has 2 approved reservations for 1 seat, and \<open>no_overbooking\<close> is
  false in a state reached from one that satisfies it by \<open>makeFlightReservation\<close> and
  \<open>handleReservationApproval\<close>.
\<close>

theorem approving_two_bookings_of_one_seat:
  "no_overbooking first_day
   \<and> no_overbooking (run (take 4 two_approvals) first_day)
   \<and> reservationsHead (run two_approvals first_day)
       = [booking 1003 ''bea'' ''Approved'', booking 1001 ''ana'' ''Approved'']
   \<and> flightsHead (run two_approvals first_day) = [flight7]
   \<and> sint (seatsAvailable flight7) = 1
   \<and> sint (countReservationsByFlight (run two_approvals first_day) 7 ''Approved'') = 2
   \<and> \<not> no_overbooking (run two_approvals first_day)"
proof -
  have a: "no_overbooking first_day"
    by (simp add: no_overbooking_def countReservationsByFlight_def countReservationsByHotel_def
        desk_defs)
  have b: "no_overbooking (run (take 4 two_approvals) first_day)"
    using a
    by (simp add: two_approvals_def makeFlightReservation_no_overbooking
        nextReservationID_no_overbooking)
  have c: "sint (countReservationsByFlight (run two_approvals first_day) 7 ''Approved'') = 2"
    by (simp add: two_approvals_result countReservationsByFlight_def booking_def)
  have d: "flightsHead (run two_approvals first_day) = [flight7]"
    by (simp add: two_approvals_result) (simp add: first_day_def)
  have e: "sint (seatsAvailable flight7) = 1"
    by (simp add: flight7_def)
  have f: "\<not> no_overbooking (run two_approvals first_day)"
    using c d e by (simp add: no_overbooking_def flight7_def)
  show ?thesis
    using a b c d e f by (simp add: two_approvals_result)
qed

end
